theory Spec2Isabelle
  imports Main "HOL-Library.Word"
begin

section \<open>Values of the JavaScript runtime\<close>

text \<open>
  The two queue plugins (\<^verbatim>\<open>plugins/queue/firestore.js\<close> and
  \<^verbatim>\<open>plugins/queue/gcp_storage.js\<close>) are embedded function by function. A JavaScript
  string is a \<^typ>\<open>string\<close>, one \<^typ>\<open>char\<close> for each code unit; a \<^verbatim>\<open>Buffer\<close> is a
  list of bytes; a property that may be \<^verbatim>\<open>undefined\<close> or \<^verbatim>\<open>null\<close> is an
  \<^typ>\<open>'a option\<close>; a \<^verbatim>\<open>Date\<close> is its number of milliseconds since the epoch.
  A thrown exception and a rejected promise are both a \<open>js_error\<close>.
\<close>

type_synonym byte = "8 word"
type_synonym buffer = "byte list"
type_synonym js_date = int

datatype js_error = JsError (error_name: string) (error_message: string)

text \<open>\<^verbatim>\<open>Buffer.toString('hex')\<close>: two lower-case hexadecimal digits for each byte.\<close>

definition hex_digit :: "nat \<Rightarrow> char" where
  "hex_digit n = ''0123456789abcdef'' ! (n mod 16)"

definition byte_hex :: "byte \<Rightarrow> string" where
  "byte_hex b = [hex_digit (unat b div 16), hex_digit (unat b mod 16)]"

definition toString_hex :: "buffer \<Rightarrow> string" where
  "toString_hex buf = concat (map byte_hex buf)"

text \<open>
  The string a template literal makes of an integral number (\<^verbatim>\<open>Date.now()\<close> is one, far
  below the \<open>10\<^sup>2\<^sup>1\<close> from which JavaScript switches to the exponent notation): its
  decimal digits, after a minus sign when it is negative.
\<close>

definition digit_char :: "nat \<Rightarrow> char" where
  "digit_char n = ''0123456789'' ! (n mod 10)"

function nat_digits :: "nat \<Rightarrow> string" where
  "nat_digits n =
     (if n < 10 then [digit_char n] else nat_digits (n div 10) @ [digit_char (n mod 10)])"
  by pat_completeness auto
termination
  by (relation "measure (\<lambda>n. n)") auto

definition number_toString :: "int \<Rightarrow> string" where
  "number_toString i =
     (if i < 0 then CHR ''-'' # nat_digits (nat (- i)) else nat_digits (nat i))"

text \<open>\<^verbatim>\<open>x || ''\<close> on a string that may be undefined.\<close>

definition or_empty :: "string option \<Rightarrow> string" where
  "or_empty x = (case x of None \<Rightarrow> [] | Some s \<Rightarrow> s)"

section \<open>The parsed email (the result of mailparser's \<^verbatim>\<open>simpleParser\<close>)\<close>

record email_address =
  addr_name :: "string option"
  addr_address :: "string option"

record address_object =
  ao_value :: "email_address list"
  ao_text :: "string option"

datatype attachment = Attachment (att_filename: "string option") (att_content: buffer)

record parsed_email =
  email_messageId :: "string option"
  email_subject :: "string option"
  email_from :: "address_object option"
  email_to :: "address_object option"
  email_cc :: "address_object option"
  email_bcc :: "address_object option"
  email_inReplyTo :: "string option"
  email_date :: "js_date option"
  email_attachments :: "attachment list option"
  email_text :: "string option"

text \<open>\<^verbatim>\<open>email.from?.text\<close>: undefined when the address object is.\<close>

definition text_of :: "address_object option \<Rightarrow> string option" where
  "text_of a = (case a of None \<Rightarrow> None | Some ao \<Rightarrow> ao_text ao)"

section \<open>What the stages take from their environment\<close>

text \<open>
  The message stream of a transaction, by the events it emits: the chunks of its
  \<^verbatim>\<open>data\<close> events, then \<^verbatim>\<open>end\<close>, or \<^verbatim>\<open>error\<close> when \<open>stream_error\<close> is set.
\<close>

record message_stream =
  stream_chunks :: "buffer list"
  stream_error :: "js_error option"

datatype parser_input =
  Buffer_input buffer
  | Stream_input message_stream
  | Undefined_input

text \<open>
  The libraries and the system services are not code of the repository; a run of a
  stage takes them from a \<open>runtime\<close>: the parser, the bytes \<^verbatim>\<open>crypto.randomBytes\<close>
  draws in \<^verbatim>\<open>gcp_storage.js\<close>, the clock at each place that reads it (\<^verbatim>\<open>Date.now()\<close> of
  line 325, \<^verbatim>\<open>new Date()\<close> of lines 293, 116 and 117), \<^verbatim>\<open>Date.prototype.toISOString\<close>,
  the error the pass-through stream of line 227 emits of its own, if it emits one, and
  for each call of a storage client (\<^verbatim>\<open>save\<close> and \<^verbatim>\<open>setMetadata\<close> of the object,
  \<^verbatim>\<open>get\<close> of the query, \<^verbatim>\<open>set\<close> of the document) the error it fails with, if it
  fails. A failed call leaves the store as it was. The plugin loader binds \<^verbatim>\<open>server\<close>,
  \<^verbatim>\<open>OK\<close> and \<^verbatim>\<open>DENYSOFT\<close>.
\<close>

record runtime =
  simpleParser :: "parser_input \<Rightarrow> js_error + parsed_email"
  entropy :: "nat \<Rightarrow> byte"
  now_generateMessageId :: int
  now_constructObjectMetadata :: js_date
  now_date :: js_date
  now_receivedDate :: js_date
  toISOString :: "js_date \<Rightarrow> string"
  captureStream_error :: "js_error option"
  save_rejects :: "js_error option"
  setMetadata_rejects :: "js_error option"
  get_rejects :: "js_error option"
  set_rejects :: "js_error option"

definition randomBytes :: "runtime \<Rightarrow> nat \<Rightarrow> buffer" where
  "randomBytes rt n = map (entropy rt) [0..<n]"

section \<open>The Message-ID resolver\<close>

text \<open>\<^verbatim>\<open>s.replace(/[<>]/g, '')\<close>\<close>

definition replace_angle_brackets :: "string \<Rightarrow> string" where
  "replace_angle_brackets s = filter (\<lambda>c. c \<noteq> CHR ''<'' \<and> c \<noteq> CHR ''>'') s"

text \<open>
  \<^verbatim>\<open>generateMessageId\<close> of \<^verbatim>\<open>firestore.js\<close>. The test \<^verbatim>\<open>if (email.messageId)\<close>
  fails for an undefined and for an empty identifier. The plugin then evaluates
  \<^verbatim>\<open>crypto.randomBytes(16)\<close> (line 152), but \<^verbatim>\<open>firestore.js\<close> binds no \<^verbatim>\<open>crypto\<close>: its
  only \<^verbatim>\<open>require\<close>s are those of lines 1 and 2 (\<^verbatim>\<open>const crypto = require('crypto')\<close>
  is line 156, in the other plugin's file), and the loader binds none. The reference
  throws, so the function returns its result or the error thrown.
\<close>

definition crypto_is_not_defined :: js_error where
  "crypto_is_not_defined = JsError ''ReferenceError'' ''crypto is not defined''"

definition generateMessageId_firestore :: "parsed_email \<Rightarrow> js_error + string" where
  "generateMessageId_firestore email =
     (case email_messageId email of
        None \<Rightarrow> Inl crypto_is_not_defined
      | Some s \<Rightarrow>
          if s \<noteq> [] then Inr (replace_angle_brackets s)
          else Inl crypto_is_not_defined)"

text \<open>
  \<^verbatim>\<open>generateMessageId\<close> of \<^verbatim>\<open>gcp_storage.js\<close>, where line 156 binds \<^verbatim>\<open>crypto\<close>.
\<close>

definition generateMessageId_storage :: "runtime \<Rightarrow> parsed_email \<Rightarrow> string" where
  "generateMessageId_storage rt email =
     (case email_messageId email of
        None \<Rightarrow>
          toString_hex (randomBytes rt 16) @ ''-'' @ number_toString (now_generateMessageId rt)
      | Some s \<Rightarrow>
          if s \<noteq> [] then replace_angle_brackets s
          else toString_hex (randomBytes rt 16) @ ''-''
                 @ number_toString (now_generateMessageId rt))"

section \<open>The state the stages act on\<close>

text \<open>
  The \<^verbatim>\<open>StorageReference\<close> the archival stage leaves in
  \<^verbatim>\<open>connection.transaction.notes.storageReference\<close>.
\<close>

record storage_reference =
  ref_bucketName :: string
  ref_objectName :: string
  ref_messageId :: string
  ref_storageUrl :: string

record transaction =
  message_stream :: "message_stream option"
  notes_storageReference :: "storage_reference option"

record connection =
  transaction :: "transaction option"

text \<open>The object \<^verbatim>\<open>constructObjectMetadata\<close> builds.\<close>

record object_metadata =
  om_contentType :: string
  om_resumable :: bool
  om_messageId :: string
  om_subject :: string
  om_from :: string
  om_to :: string
  om_date :: string

text \<open>
  The object \<^verbatim>\<open>constructMessageDetails\<close> builds. The three fields of the storage
  reference are properties the object may lack; \<^verbatim>\<open>date\<close> is the parser's \<^verbatim>\<open>Date\<close>
  or an ISO string.
\<close>

datatype date_field = DateObject js_date | DateString string

record message_details =
  md_messageId :: string
  md_bucketName :: "string option"
  md_objectName :: "string option"
  md_storageUrl :: "string option"
  md_subject :: string
  md_from :: string
  md_to :: string
  md_cc :: string
  md_ccAddresses :: "string option list"
  md_bcc :: string
  md_inReplyTo :: "string option"
  md_date :: date_field
  md_receivedDate :: string
  md_attachmentsCount :: nat
  md_plainTextLength :: nat

text \<open>
  The bucket store maps a bucket and an object name to the object; the document store
  has its top-level collections (the recipients' documents, in the order a query returns
  them) and the documents the stage writes, each under its path.
\<close>

record gcs_object =
  object_body :: buffer
  object_metadata :: "object_metadata option"

record recipient_document =
  doc_id :: string
  notifications_email :: "string option"

datatype log_line = Loginfo string | Logerror string | Connection_loginfo string

datatype retcode = OK | DENYSOFT

text \<open>One invocation of the continuation: \<^verbatim>\<open>next()\<close>, \<^verbatim>\<open>next(code)\<close> or \<^verbatim>\<open>next(code, msg)\<close>.\<close>

datatype next_call = Next "retcode option" "string option"

record state =
  connection :: "connection option"
  gcpStorage :: "string \<times> string \<rightharpoonup> gcs_object"
  firestore_collections :: "string \<Rightarrow> recipient_document list"
  firestore_documents :: "string \<rightharpoonup> message_details"
  log :: "log_line list"
  next_calls :: "next_call list"

definition loginfo :: "string \<Rightarrow> state \<Rightarrow> state" where
  "loginfo msg s = s\<lparr>log := log s @ [Loginfo msg]\<rparr>"

definition logerror :: "string \<Rightarrow> state \<Rightarrow> state" where
  "logerror msg s = s\<lparr>log := log s @ [Logerror msg]\<rparr>"

definition connection_loginfo :: "string \<Rightarrow> state \<Rightarrow> state" where
  "connection_loginfo msg s = s\<lparr>log := log s @ [Connection_loginfo msg]\<rparr>"

definition call_next :: "retcode option \<Rightarrow> string option \<Rightarrow> state \<Rightarrow> state" where
  "call_next code msg s = s\<lparr>next_calls := next_calls s @ [Next code msg]\<rparr>"

text \<open>
  The options the stages read: \<^verbatim>\<open>cfg.firestore.*\<close> of \<^verbatim>\<open>firestore.ini\<close>, and
  \<^verbatim>\<open>cfg.storage.bucketName\<close> and \<^verbatim>\<open>cfg.queue.isSingleHandler\<close> of \<^verbatim>\<open>gcp_storage.ini\<close>.
\<close>

record firestore_cfg =
  firestore_merchantsPaymentNotificationsCollection :: string
  firestore_merchantNotificationCollection :: string

record storage_cfg =
  storage_bucketName :: string
  queue_isSingleHandler :: bool

section \<open>The metadata stage (\<^verbatim>\<open>firestore.js\<close>)\<close>

definition constructMessageDetails ::
  "runtime \<Rightarrow> parsed_email \<Rightarrow> string \<Rightarrow> storage_reference option \<Rightarrow> message_details" where
  "constructMessageDetails rt email messageId storageReference =
     \<lparr>md_messageId = messageId,
      md_bucketName = map_option ref_bucketName storageReference,
      md_objectName = map_option ref_objectName storageReference,
      md_storageUrl = map_option ref_storageUrl storageReference,
      md_subject = or_empty (email_subject email),
      md_from = or_empty (text_of (email_from email)),
      md_to = or_empty (text_of (email_to email)),
      md_cc = or_empty (text_of (email_cc email)),
      md_ccAddresses =
        map addr_address (case email_cc email of None \<Rightarrow> [] | Some ao \<Rightarrow> ao_value ao),
      md_bcc = or_empty (text_of (email_bcc email)),
      md_inReplyTo =
        (case email_inReplyTo email of
           None \<Rightarrow> None
         | Some r \<Rightarrow> if r \<noteq> [] then Some r else None),
      md_date =
        (case email_date email of
           Some d \<Rightarrow> DateObject d
         | None \<Rightarrow> DateString (toISOString rt (now_date rt))),
      md_receivedDate = toISOString rt (now_receivedDate rt),
      md_attachmentsCount =
        (case email_attachments email of None \<Rightarrow> 0 | Some as \<Rightarrow> length as),
      md_plainTextLength =
        (case email_text email of None \<Rightarrow> 0 | Some t \<Rightarrow> length t)\<rparr>"

text \<open>\<^verbatim>\<open>parseEmail(connection)\<close> hands the transaction's stream to the parser.\<close>

definition parseEmail_firestore :: "runtime \<Rightarrow> transaction \<Rightarrow> js_error + parsed_email" where
  "parseEmail_firestore rt txn =
     simpleParser rt
       (case message_stream txn of None \<Rightarrow> Undefined_input | Some ms \<Rightarrow> Stream_input ms)"

text \<open>
  \<^verbatim>\<open>collection(c).where('notifications_email', '==', to).get()\<close>: the documents of the
  collection whose field equals the address.
\<close>

definition query_where :: "recipient_document list \<Rightarrow> string \<Rightarrow> recipient_document list" where
  "query_where docs to = filter (\<lambda>d. notifications_email d = Some to) docs"

text \<open>The path of \<^verbatim>\<open>ref.collection(sub).doc(messageId)\<close> under a recipient's document.\<close>

definition document_path :: "string \<Rightarrow> string \<Rightarrow> string \<Rightarrow> string \<Rightarrow> string" where
  "document_path coll docId sub messageId =
     coll @ ''/'' @ docId @ ''/'' @ sub @ ''/'' @ messageId"

text \<open>What reading \<^verbatim>\<open>.ref\<close> of \<^verbatim>\<open>docs[0]\<close> throws when the query matched nothing.\<close>

definition undefined_ref_error :: js_error where
  "undefined_ref_error =
     JsError ''TypeError''
       (''Cannot read properties of undefined (reading '' @ [CHR 0x27] @ ''ref''
          @ [CHR 0x27] @ '')'')"

text \<open>
  The message identifier of the metadata stage (line 72): the storage reference's when
  there is one, the result of \<^verbatim>\<open>generateMessageId\<close>, or the error it throws, otherwise.
\<close>

definition resolve_messageId ::
  "storage_reference option \<Rightarrow> parsed_email \<Rightarrow> js_error + string" where
  "resolve_messageId storageReference email =
     (case storageReference of
        Some r \<Rightarrow> Inr (ref_messageId r)
      | None \<Rightarrow> generateMessageId_firestore email)"

text \<open>
  The body of the \<^verbatim>\<open>try\<close> block: the error thrown, if any, and the state it leaves.
\<close>

definition persist_email_details_try ::
  "firestore_cfg \<Rightarrow> runtime \<Rightarrow> transaction \<Rightarrow> state \<Rightarrow> js_error option \<times> state" where
  "persist_email_details_try cfg rt txn s =
     (let storageReference = notes_storageReference txn in
      case parseEmail_firestore rt txn of
        Inl e \<Rightarrow> (Some e, s)
      | Inr email \<Rightarrow>
          (case resolve_messageId storageReference email of
             Inl e \<Rightarrow> (Some e, s)
           | Inr messageId \<Rightarrow>
               let messageDetails = constructMessageDetails rt email messageId storageReference
               in
                 (case get_rejects rt of
                    Some e \<Rightarrow> (Some e, s)
                  | None \<Rightarrow>
                      (case query_where
                              (firestore_collections s
                                 (firestore_merchantsPaymentNotificationsCollection cfg))
                              (md_to messageDetails) of
                         [] \<Rightarrow> (Some undefined_ref_error, s)
                       | d # _ \<Rightarrow>
                           (case set_rejects rt of
                              Some e \<Rightarrow> (Some e, s)
                            | None \<Rightarrow>
                                (None,
                                 call_next (Some OK) None
                                   (loginfo
                                      (''Message details for '' @ messageId
                                         @ '' successfully persisted in Firestore'')
                                      (s\<lparr>firestore_documents :=
                                           (firestore_documents s)
                                             (document_path
                                                (firestore_merchantsPaymentNotificationsCollection cfg)
                                                (doc_id d)
                                                (firestore_merchantNotificationCollection cfg)
                                                messageId
                                              \<mapsto> messageDetails)\<rparr>))))))))"

definition persist_email_details :: "firestore_cfg \<Rightarrow> runtime \<Rightarrow> state \<Rightarrow> state" where
  "persist_email_details cfg rt s =
     (case connection s of
        None \<Rightarrow> call_next None None s
      | Some conn \<Rightarrow>
          (case transaction conn of
             None \<Rightarrow> call_next None None s
           | Some txn \<Rightarrow>
               (case persist_email_details_try cfg rt txn s of
                  (None, s') \<Rightarrow> s'
                | (Some error, s') \<Rightarrow>
                    call_next (Some DENYSOFT) (Some ''Persistence error'')
                      (logerror
                         (''Failed to persist email details in Firestore: ''
                            @ error_message error)
                         s'))))"

section \<open>The archival stage (\<^verbatim>\<open>gcp_storage.js\<close>)\<close>

text \<open>
  The promise of lines 223 to 233. The message stream is piped into a pass-through
  stream, and the three handlers are attached to the pass-through stream alone: every
  chunk is pushed, \<^verbatim>\<open>end\<close> resolves with the concatenation of the chunks, an
  \<^verbatim>\<open>error\<close> of the pass-through stream rejects. \<^verbatim>\<open>pipe\<close> does not pass an error of
  its source on to its destination and does not end the destination then, so an error
  of the message stream leaves the promise unsettled: nothing after the \<^verbatim>\<open>await\<close>
  runs.
\<close>

datatype 'a promise = Resolved 'a | Rejected js_error | Pending

definition capture_stream :: "runtime \<Rightarrow> message_stream \<Rightarrow> buffer promise" where
  "capture_stream rt messageStream =
     (case captureStream_error rt of
        Some e \<Rightarrow> Rejected e
      | None \<Rightarrow>
          (case stream_error messageStream of
             Some e \<Rightarrow> Pending
           | None \<Rightarrow> Resolved (concat (stream_chunks messageStream))))"

definition parseEmail_storage :: "runtime \<Rightarrow> buffer \<Rightarrow> js_error + parsed_email" where
  "parseEmail_storage rt emailStream = simpleParser rt (Buffer_input emailStream)"

text \<open>The fields of the nested \<^verbatim>\<open>metadata\<close> object stand beside the two outer ones.\<close>

definition constructObjectMetadata ::
  "runtime \<Rightarrow> parsed_email \<Rightarrow> string \<Rightarrow> object_metadata" where
  "constructObjectMetadata rt parsedEmail messageId =
     \<lparr>om_contentType = ''message/rfc822'',
      om_resumable = False,
      om_messageId = messageId,
      om_subject = or_empty (email_subject parsedEmail),
      om_from = or_empty (text_of (email_from parsedEmail)),
      om_to = or_empty (text_of (email_to parsedEmail)),
      om_date =
        (case email_date parsedEmail of
           Some d \<Rightarrow> toISOString rt d
         | None \<Rightarrow> toISOString rt (now_constructObjectMetadata rt))\<rparr>"

text \<open>
  \<^verbatim>\<open>uploadEmailToStorage\<close>: \<^verbatim>\<open>save\<close> writes the body of the object, then
  \<^verbatim>\<open>setMetadata\<close> attaches the metadata; a rejection of the second leaves the body
  written.
\<close>

definition uploadEmailToStorage ::
  "runtime \<Rightarrow> buffer \<Rightarrow> object_metadata \<Rightarrow> string \<Rightarrow> string \<Rightarrow> state
     \<Rightarrow> js_error option \<times> state" where
  "uploadEmailToStorage rt emailBuffer objectMetadata bucketName objectName s =
     (case save_rejects rt of
        Some e \<Rightarrow> (Some e, s)
      | None \<Rightarrow>
          let s1 = s\<lparr>gcpStorage :=
                      (gcpStorage s)
                        ((bucketName, objectName) \<mapsto>
                           \<lparr>object_body = emailBuffer, object_metadata = None\<rparr>)\<rparr>
          in
            (case setMetadata_rejects rt of
               Some e \<Rightarrow> (Some e, s1)
             | None \<Rightarrow>
                 (None,
                  s1\<lparr>gcpStorage :=
                       (gcpStorage s1)
                         ((bucketName, objectName) \<mapsto>
                            \<lparr>object_body = emailBuffer,
                             object_metadata = Some objectMetadata\<rparr>)\<rparr>)))"

text \<open>
  The body of the \<^verbatim>\<open>try\<close> block of \<^verbatim>\<open>save_email_in_bucket\<close>: how it ends (it
  returns, it throws, or it waits for ever on the capture) and the state it leaves.
\<close>

datatype completion = Returned | Threw js_error | Never_settles

definition save_email_in_bucket_try ::
  "storage_cfg \<Rightarrow> runtime \<Rightarrow> connection \<Rightarrow> transaction \<Rightarrow> message_stream \<Rightarrow> state
     \<Rightarrow> completion \<times> state" where
  "save_email_in_bucket_try cfg rt conn txn messageStream s =
     (case capture_stream rt messageStream of
        Pending \<Rightarrow> (Never_settles, s)
      | Rejected e \<Rightarrow> (Threw e, s)
      | Resolved rawEmailBuffer \<Rightarrow>
          (case parseEmail_storage rt rawEmailBuffer of
             Inl e \<Rightarrow> (Threw e, s)
           | Inr email \<Rightarrow>
               let messageId = generateMessageId_storage rt email;
                   bucketName = storage_bucketName cfg;
                   objectName = ''emails/'' @ messageId @ ''.eml''
               in
                 (case uploadEmailToStorage rt rawEmailBuffer
                         (constructObjectMetadata rt email messageId) bucketName objectName s of
                    (Some e, s1) \<Rightarrow> (Threw e, s1)
                  | (None, s1) \<Rightarrow>
                      let s2 = s1\<lparr>connection :=
                                  Some (conn\<lparr>transaction :=
                                    Some (txn\<lparr>notes_storageReference :=
                                      Some \<lparr>ref_bucketName = bucketName,
                                            ref_objectName = objectName,
                                            ref_messageId = messageId,
                                            ref_storageUrl =
                                              ''gs://'' @ bucketName @ ''/'' @ objectName\<rparr>\<rparr>)\<rparr>)\<rparr>;
                          s3 = loginfo
                                 (''Email '' @ messageId
                                    @ '' successfully saved in GCP bucket: '' @ bucketName
                                    @ '', object: '' @ objectName)
                                 s2
                      in
                        if queue_isSingleHandler cfg
                        then
                          (Returned,
                           call_next (Some OK) None
                             (connection_loginfo
                                ''Single handler mode enabled, message is queued successfully.''
                                s3))
                        else
                          (Returned,
                           call_next None None
                             (connection_loginfo
                                ''Proceeding to next handler after saving email in GCP Storage.''
                                s3)))))"

definition save_email_in_bucket :: "storage_cfg \<Rightarrow> runtime \<Rightarrow> state \<Rightarrow> state" where
  "save_email_in_bucket cfg rt s =
     (case connection s of
        None \<Rightarrow> call_next None None s
      | Some conn \<Rightarrow>
          (case transaction conn of
             None \<Rightarrow> call_next None None s
           | Some txn \<Rightarrow>
               (case message_stream txn of
                  None \<Rightarrow> call_next None None s
                | Some messageStream \<Rightarrow>
                    (case save_email_in_bucket_try cfg rt conn txn messageStream s of
                       (Returned, s') \<Rightarrow> s'
                     | (Threw error, s') \<Rightarrow>
                         call_next (Some DENYSOFT) (Some ''Persistence error'')
                           (logerror
                              (''Failed to save email in GCP Storage: '' @ error_message error)
                              s')
                     | (Never_settles, s') \<Rightarrow> s'))))"

text \<open>The storage reference a state carries in the notes of its transaction.\<close>

definition storageReference_of :: "state \<Rightarrow> storage_reference option" where
  "storageReference_of s =
     (case connection s of
        None \<Rightarrow> None
      | Some conn \<Rightarrow>
          (case transaction conn of
             None \<Rightarrow> None
           | Some txn \<Rightarrow> notes_storageReference txn))"

section \<open>The specification's reading of the resolver\<close>

text \<open>
  The specification says of an embedded identifier: ``strip any enclosing angle-bracket
  delimiters and return it verbatim''. This function follows those words, not the code:
  it drops a leading \<open><\<close> and a trailing \<open>>\<close> and keeps every other character.
\<close>

definition spec_strip_enclosing_brackets :: "string \<Rightarrow> string" where
  "spec_strip_enclosing_brackets s =
     (let t = (if s \<noteq> [] \<and> hd s = CHR ''<'' then tl s else s)
      in if t \<noteq> [] \<and> last t = CHR ''>'' then butlast t else t)"

section \<open>Concrete inputs\<close>

text \<open>
  The message of the specification's scenario: no \<^verbatim>\<open>Message-ID\<close> header, subject
  \<open>Hello\<close>, from \<open>x@y.com\<close>, to \<open>a@example.com\<close>, the body \<open>hi\<close>, no attachment.
\<close>

definition scenario_email :: parsed_email where
  "scenario_email =
     \<lparr>email_messageId = None,
      email_subject = Some ''Hello'',
      email_from =
        Some \<lparr>ao_value = [\<lparr>addr_name = Some [], addr_address = Some ''x@y.com''\<rparr>],
              ao_text = Some ''x@y.com''\<rparr>,
      email_to =
        Some \<lparr>ao_value = [\<lparr>addr_name = Some [], addr_address = Some ''a@example.com''\<rparr>],
              ao_text = Some ''a@example.com''\<rparr>,
      email_cc = None,
      email_bcc = None,
      email_inReplyTo = None,
      email_date = None,
      email_attachments = Some [],
      email_text = Some ''hi''\<rparr>"

text \<open>
  A runtime in which every call succeeds: the parser returns the scenario's message
  whatever it reads, the pass-through stream emits no error, byte \<open>i\<close> of the random source is \<open>17 i + 3\<close>, and the ISO
  rendering of a date is stood for by its number of milliseconds in decimal.
\<close>

definition example_runtime :: runtime where
  "example_runtime =
     \<lparr>simpleParser = (\<lambda>_. Inr scenario_email),
      entropy = (\<lambda>i. of_nat (17 * i + 3)),
      now_generateMessageId = 1700000000000,
      now_constructObjectMetadata = 1700000000001,
      now_date = 1700000000002,
      now_receivedDate = 1700000000003,
      toISOString = number_toString,
      captureStream_error = None,
      save_rejects = None,
      setMetadata_rejects = None,
      get_rejects = None,
      set_rejects = None\<rparr>"

definition example_firestore_cfg :: firestore_cfg where
  "example_firestore_cfg =
     \<lparr>firestore_merchantsPaymentNotificationsCollection = ''merchants'',
      firestore_merchantNotificationCollection = ''notifications''\<rparr>"

definition example_storage_cfg :: storage_cfg where
  "example_storage_cfg = \<lparr>storage_bucketName = ''mail'', queue_isSingleHandler = False\<rparr>"

text \<open>
  A state before the stages run: a transaction whose stream delivers the two chunks
  \<open>h\<close> and \<open>i\<close>, no storage reference yet, empty stores but for one recipient document
  \<open>m1\<close> of the collection \<open>merchants\<close>, whose address is \<open>a@example.com\<close>.
\<close>

definition example_transaction :: transaction where
  "example_transaction =
     \<lparr>message_stream = Some \<lparr>stream_chunks = [[104], [105]], stream_error = None\<rparr>,
      notes_storageReference = None\<rparr>"

definition example_state :: state where
  "example_state =
     \<lparr>connection = Some \<lparr>transaction = Some example_transaction\<rparr>,
      gcpStorage = Map.empty,
      firestore_collections =
        (\<lambda>c. if c = ''merchants''
             then [\<lparr>doc_id = ''m1'', notifications_email = Some ''a@example.com''\<rparr>]
             else []),
      firestore_documents = Map.empty,
      log = [],
      next_calls = []\<rparr>"

text \<open>
  The storage reference the archival stage publishes for the scenario's message under
  the example runtime and configuration, and the example state with that reference in
  the notes of its transaction.
\<close>

definition example_reference :: storage_reference where
  "example_reference =
     \<lparr>ref_bucketName = ''mail'',
      ref_objectName = ''emails/031425364758697a8b9cadbecfe0f102-1700000000000.eml'',
      ref_messageId = ''031425364758697a8b9cadbecfe0f102-1700000000000'',
      ref_storageUrl =
        ''gs://mail/emails/031425364758697a8b9cadbecfe0f102-1700000000000.eml''\<rparr>"

definition example_state_archived :: state where
  "example_state_archived =
     example_state
       \<lparr>connection :=
          Some \<lparr>transaction =
                  Some (example_transaction
                          \<lparr>notes_storageReference := Some example_reference\<rparr>)\<rparr>\<rparr>"

definition example_error :: js_error where
  "example_error = JsError ''Error'' ''service unavailable''"

text \<open>
  Two deliveries of one message whose \<^verbatim>\<open>Message-ID\<close> header is \<open><abc@x>\<close>: the parser
  returns the same message both times; the random source and the clock differ.
\<close>

definition first_delivery :: runtime where
  "first_delivery =
     example_runtime
       \<lparr>simpleParser := (\<lambda>_. Inr (scenario_email\<lparr>email_messageId := Some ''<abc@x>''\<rparr>))\<rparr>"

definition second_delivery :: runtime where
  "second_delivery =
     first_delivery
       \<lparr>entropy := (\<lambda>i. of_nat (5 * i)),
        now_date := 1700000600002,
        now_receivedDate := 1700000600003\<rparr>"

lemmas example_defs =
  scenario_email_def example_runtime_def example_firestore_cfg_def example_storage_cfg_def
  example_transaction_def example_state_def example_reference_def
  example_state_archived_def example_error_def first_delivery_def second_delivery_def

section \<open>Rendering bytes and numbers\<close>

lemma length_toString_hex: "length (toString_hex buf) = 2 * length buf"
  by (induction buf) (simp_all add: toString_hex_def byte_hex_def)

lemma hex_digit_range: "hex_digit n \<in> set ''0123456789abcdef''"
  unfolding hex_digit_def by (rule nth_mem) simp

lemma set_toString_hex: "set (toString_hex buf) \<subseteq> set ''0123456789abcdef''"
  unfolding toString_hex_def byte_hex_def using hex_digit_range by auto

lemma length_randomBytes: "length (randomBytes rt n) = n"
  by (simp add: randomBytes_def)

lemma example_random_hex:
  "toString_hex (randomBytes example_runtime 16) = ''031425364758697a8b9cadbecfe0f102''"
  by (simp add: toString_hex_def randomBytes_def example_runtime_def byte_hex_def
      hex_digit_def upt_rec)

lemma example_now_string: "number_toString 1700000000000 = ''1700000000000''"
  by (simp add: number_toString_def digit_char_def)

section \<open>The Message-ID resolver\<close>

text \<open>
  Claim C2, as the code has it. For a message with a non-empty embedded identifier,
  \<^verbatim>\<open>generateMessageId\<close> of either plugin returns the identifier without any of its
  \<open><\<close> and \<open>>\<close> characters, wherever they stand, and with its other characters in
  their order; the result depends neither on the random source nor on the clock (the
  metadata stage's resolver reads neither). When the identifier is \<open><\<close>, a text free
  of angle brackets, \<open>>\<close>, the result is that text.
\<close>

theorem generateMessageId_embedded:
  assumes "email_messageId email = Some s" and "s \<noteq> []"
  shows "generateMessageId_firestore email
           = Inr (filter (\<lambda>c. c \<noteq> CHR ''<'' \<and> c \<noteq> CHR ''>'') s)
       \<and> generateMessageId_storage rt email
           = filter (\<lambda>c. c \<noteq> CHR ''<'' \<and> c \<noteq> CHR ''>'') s
       \<and> generateMessageId_storage rt' email = generateMessageId_storage rt email
       \<and> (s = ''<'' @ inner @ ''>'' \<and> CHR ''<'' \<notin> set inner \<and> CHR ''>'' \<notin> set inner
            \<longrightarrow> generateMessageId_firestore email = Inr inner
              \<and> generateMessageId_storage rt email = inner)"
proof -
  have "filter (\<lambda>c. c \<noteq> CHR ''<'' \<and> c \<noteq> CHR ''>'') inner = inner"
    if "CHR ''<'' \<notin> set inner" and "CHR ''>'' \<notin> set inner"
    using that by (induction inner) auto
  with assms show ?thesis
    by (auto simp: generateMessageId_firestore_def generateMessageId_storage_def
        replace_angle_brackets_def)
qed

text \<open>The specification's example: \<open><abc@x>\<close> resolves to \<open>abc@x\<close> in both plugins.\<close>

theorem generateMessageId_embedded_witness:
  "generateMessageId_firestore (scenario_email\<lparr>email_messageId := Some ''<abc@x>''\<rparr>)
     = Inr ''abc@x''
   \<and> generateMessageId_storage example_runtime
       (scenario_email\<lparr>email_messageId := Some ''<abc@x>''\<rparr>) = ''abc@x''"
  using generateMessageId_embedded
    [of "scenario_email\<lparr>email_messageId := Some ''<abc@x>''\<rparr>" "''<abc@x>''"
      example_runtime example_runtime "''abc@x''"]
  by simp

text \<open>
  Claim C2 as the specification words it (only the enclosing delimiters go, the rest is
  returned verbatim) fails on an identifier with an angle bracket inside: the code
  removes that one too.
\<close>

theorem generateMessageId_inner_bracket_counterexample:
  "generateMessageId_firestore (scenario_email\<lparr>email_messageId := Some ''<a<b@x>''\<rparr>)
     = Inr ''ab@x''
   \<and> generateMessageId_storage example_runtime
       (scenario_email\<lparr>email_messageId := Some ''<a<b@x>''\<rparr>) = ''ab@x''
   \<and> spec_strip_enclosing_brackets ''<a<b@x>'' = ''a<b@x''
   \<and> generateMessageId_firestore (scenario_email\<lparr>email_messageId := Some ''<a<b@x>''\<rparr>)
       \<noteq> Inr (spec_strip_enclosing_brackets ''<a<b@x>'')
   \<and> generateMessageId_storage example_runtime
       (scenario_email\<lparr>email_messageId := Some ''<a<b@x>''\<rparr>)
       \<noteq> spec_strip_enclosing_brackets ''<a<b@x>''"
  by (simp add: generateMessageId_firestore_def generateMessageId_storage_def
      replace_angle_brackets_def spec_strip_enclosing_brackets_def)

text \<open>
  Claim C3, on the code. For a message without an embedded identifier (none, or an
  empty one), the archival stage's \<^verbatim>\<open>generateMessageId\<close> returns the hexadecimal
  rendering of 16 bytes of the random source (32 hexadecimal digits), a hyphen and the
  clock's reading in decimal. The metadata stage's \<^verbatim>\<open>generateMessageId\<close> returns no
  identifier for such a message: it throws the \<^verbatim>\<open>ReferenceError\<close> of the unbound
  \<^verbatim>\<open>crypto\<close>, and so does the resolution of line 72 when the notes carry no reference.
\<close>

theorem generateMessageId_generated:
  assumes "email_messageId email = None \<or> email_messageId email = Some []"
  shows "generateMessageId_storage rt email
           = toString_hex (randomBytes rt 16) @ ''-''
               @ number_toString (now_generateMessageId rt)
       \<and> length (randomBytes rt 16) = 16
       \<and> length (toString_hex (randomBytes rt 16)) = 32
       \<and> set (toString_hex (randomBytes rt 16)) \<subseteq> set ''0123456789abcdef''
       \<and> generateMessageId_firestore email = Inl crypto_is_not_defined
       \<and> resolve_messageId None email = Inl crypto_is_not_defined"
  using assms set_toString_hex [of "randomBytes rt 16"]
  by (auto simp: generateMessageId_storage_def generateMessageId_firestore_def
      resolve_messageId_def length_toString_hex length_randomBytes)

theorem generateMessageId_generated_witness:
  "generateMessageId_storage example_runtime scenario_email
       = ''031425364758697a8b9cadbecfe0f102-1700000000000''
   \<and> generateMessageId_firestore scenario_email
       = Inl (JsError ''ReferenceError'' ''crypto is not defined'')"
  using generateMessageId_generated [of scenario_email example_runtime]
    example_random_hex example_now_string
  by (simp add: scenario_email_def example_runtime_def crypto_is_not_defined_def)

section \<open>The metadata stage, step by step\<close>

text \<open>An error inside the \<^verbatim>\<open>try\<close> block of the metadata stage leaves the state untouched.\<close>

lemma persist_try_error_state:
  "persist_email_details_try cfg rt txn s = (Some e, s') \<Longrightarrow> s' = s"
  by (auto simp: persist_email_details_try_def Let_def
      split: sum.splits option.splits list.splits)

text \<open>The block completes when, and only when, each of its five steps succeeds.\<close>

lemma persist_try_run:
  assumes "parseEmail_firestore rt txn = Inr email"
    and "resolve_messageId (notes_storageReference txn) email = Inr messageId"
    and "get_rejects rt = None"
    and "query_where
           (firestore_collections s (firestore_merchantsPaymentNotificationsCollection cfg))
           (or_empty (text_of (email_to email))) = d # ds"
    and "set_rejects rt = None"
  shows "persist_email_details_try cfg rt txn s =
     (None,
      call_next (Some OK) None
        (loginfo
           (''Message details for '' @ messageId @ '' successfully persisted in Firestore'')
           (s\<lparr>firestore_documents :=
                (firestore_documents s)
                  (document_path
                     (firestore_merchantsPaymentNotificationsCollection cfg)
                     (doc_id d)
                     (firestore_merchantNotificationCollection cfg)
                     messageId
                   \<mapsto> constructMessageDetails rt email messageId
                        (notes_storageReference txn))\<rparr>)))"
  using assms
  by (simp add: persist_email_details_try_def Let_def constructMessageDetails_def)

lemma persist_try_success:
  assumes "fst (persist_email_details_try cfg rt txn s) = None"
  obtains email messageId d ds where
    "parseEmail_firestore rt txn = Inr email"
    and "resolve_messageId (notes_storageReference txn) email = Inr messageId"
    and "get_rejects rt = None"
    and "query_where
           (firestore_collections s (firestore_merchantsPaymentNotificationsCollection cfg))
           (or_empty (text_of (email_to email))) = d # ds"
    and "set_rejects rt = None"
  using assms
  by (auto simp: persist_email_details_try_def Let_def constructMessageDetails_def
      split: sum.splits option.splits list.splits)

lemma persist_try_unresolved:
  assumes "parseEmail_firestore rt txn = Inr email"
    and "resolve_messageId (notes_storageReference txn) email = Inl e"
  shows "persist_email_details_try cfg rt txn s = (Some e, s)"
  using assms by (simp add: persist_email_details_try_def Let_def)

lemma persist_try_no_match:
  assumes "parseEmail_firestore rt txn = Inr email"
    and "query_where
           (firestore_collections s (firestore_merchantsPaymentNotificationsCollection cfg))
           (or_empty (text_of (email_to email))) = []"
  shows "persist_email_details_try cfg rt txn s =
           (Some (case resolve_messageId (notes_storageReference txn) email of
                    Inl e \<Rightarrow> e
                  | Inr messageId \<Rightarrow>
                      (case get_rejects rt of Some e \<Rightarrow> e | None \<Rightarrow> undefined_ref_error)),
            s)"
  using assms
  by (simp add: persist_email_details_try_def Let_def constructMessageDetails_def
      split: option.splits sum.splits)

text \<open>The stage itself, on a connection with a transaction.\<close>

lemma persist_email_details_caught:
  assumes "connection s = Some conn" and "transaction conn = Some txn"
    and "persist_email_details_try cfg rt txn s = (Some e, s1)"
  shows "persist_email_details cfg rt s =
           call_next (Some DENYSOFT) (Some ''Persistence error'')
             (logerror (''Failed to persist email details in Firestore: '' @ error_message e) s)"
  using assms persist_try_error_state [OF assms(3)]
  by (simp add: persist_email_details_def)

text \<open>
  The continuation's invocation in each case, and what the stage never touches: the
  connection and the recipients' collections.
\<close>

lemma persist_email_details_effect:
  "next_calls (persist_email_details cfg rt s) =
     next_calls s @
       [case connection s of
          None \<Rightarrow> Next None None
        | Some conn \<Rightarrow>
            (case transaction conn of
               None \<Rightarrow> Next None None
             | Some txn \<Rightarrow>
                 (case fst (persist_email_details_try cfg rt txn s) of
                    None \<Rightarrow> Next (Some OK) None
                  | Some e \<Rightarrow> Next (Some DENYSOFT) (Some ''Persistence error'')))]
   \<and> connection (persist_email_details cfg rt s) = connection s
   \<and> firestore_collections (persist_email_details cfg rt s) = firestore_collections s"
proof (cases "connection s")
  case None
  then show ?thesis by (simp add: persist_email_details_def call_next_def)
next
  case (Some conn)
  show ?thesis
  proof (cases "transaction conn")
    case None
    with Some show ?thesis by (simp add: persist_email_details_def call_next_def)
  next
    case txn: (Some txn)
    obtain r s1 where t: "persist_email_details_try cfg rt txn s = (r, s1)"
      by (cases "persist_email_details_try cfg rt txn s")
    show ?thesis
    proof (cases r)
      case None
      with t have "fst (persist_email_details_try cfg rt txn s) = None"
        by simp
      then obtain email messageId d ds where
        "parseEmail_firestore rt txn = Inr email"
        "resolve_messageId (notes_storageReference txn) email = Inr messageId"
        "get_rejects rt = None"
        "query_where
           (firestore_collections s (firestore_merchantsPaymentNotificationsCollection cfg))
           (or_empty (text_of (email_to email))) = d # ds"
        "set_rejects rt = None"
        by (rule persist_try_success)
      from persist_try_run [OF this] Some txn show ?thesis
        by (simp add: persist_email_details_def call_next_def loginfo_def)
    next
      case (Some e)
      with t \<open>connection s = Some conn\<close> txn show ?thesis
        using persist_email_details_caught [of s conn txn cfg rt e s1]
        by (simp add: call_next_def logerror_def)
    qed
  qed
qed

section \<open>The archival stage, step by step\<close>

lemma uploadEmailToStorage_error:
  assumes "uploadEmailToStorage rt buf m b k s = (Some e, s')"
  shows "connection s' = connection s" and "next_calls s' = next_calls s"
    and "log s' = log s" and "firestore_documents s' = firestore_documents s"
  using assms by (auto simp: uploadEmailToStorage_def Let_def split: option.splits)

lemma uploadEmailToStorage_run:
  assumes "save_rejects rt = None" and "setMetadata_rejects rt = None"
  shows "uploadEmailToStorage rt buf m b k s =
           (None,
            s\<lparr>gcpStorage :=
                (gcpStorage s)((b, k) \<mapsto> \<lparr>object_body = buf, object_metadata = Some m\<rparr>)\<rparr>)"
  using assms by (simp add: uploadEmailToStorage_def Let_def)

text \<open>
  A \<^verbatim>\<open>try\<close> block of the archival stage that does not return leaves the connection,
  and so the notes of its transaction, as they were, and has called neither a logger
  nor the continuation.
\<close>

lemma save_try_error_state:
  assumes "fst (save_email_in_bucket_try cfg rt conn txn ms s) \<noteq> Returned"
  shows "connection (snd (save_email_in_bucket_try cfg rt conn txn ms s)) = connection s"
    and "next_calls (snd (save_email_in_bucket_try cfg rt conn txn ms s)) = next_calls s"
    and "log (snd (save_email_in_bucket_try cfg rt conn txn ms s)) = log s"
  using assms
  by (auto simp: save_email_in_bucket_try_def Let_def connection_loginfo_def call_next_def
      loginfo_def split: sum.splits option.splits if_splits prod.splits promise.splits
      dest: uploadEmailToStorage_error)

lemma save_try_pending:
  assumes "captureStream_error rt = None" and "stream_error ms = Some e"
  shows "save_email_in_bucket_try cfg rt conn txn ms s = (Never_settles, s)"
  using assms by (simp add: save_email_in_bucket_try_def capture_stream_def)

lemma save_try_run:
  assumes "captureStream_error rt = None" and "stream_error ms = None"
    and "parseEmail_storage rt (concat (stream_chunks ms)) = Inr email"
    and "save_rejects rt = None" and "setMetadata_rejects rt = None"
  shows "save_email_in_bucket_try cfg rt conn txn ms s =
     (Returned,
      call_next (if queue_isSingleHandler cfg then Some OK else None) None
        (connection_loginfo
           (if queue_isSingleHandler cfg
            then ''Single handler mode enabled, message is queued successfully.''
            else ''Proceeding to next handler after saving email in GCP Storage.'')
           (loginfo
              (''Email '' @ generateMessageId_storage rt email
                 @ '' successfully saved in GCP bucket: '' @ storage_bucketName cfg
                 @ '', object: '' @ ''emails/'' @ generateMessageId_storage rt email @ ''.eml'')
              (s\<lparr>gcpStorage :=
                   (gcpStorage s)
                     ((storage_bucketName cfg,
                       ''emails/'' @ generateMessageId_storage rt email @ ''.eml'') \<mapsto>
                        \<lparr>object_body = concat (stream_chunks ms),
                         object_metadata =
                           Some (constructObjectMetadata rt email
                                   (generateMessageId_storage rt email))\<rparr>),
                 connection :=
                   Some (conn\<lparr>transaction :=
                     Some (txn\<lparr>notes_storageReference :=
                       Some \<lparr>ref_bucketName = storage_bucketName cfg,
                             ref_objectName =
                               ''emails/'' @ generateMessageId_storage rt email @ ''.eml'',
                             ref_messageId = generateMessageId_storage rt email,
                             ref_storageUrl =
                               ''gs://'' @ storage_bucketName cfg @ ''/'' @ ''emails/''
                                 @ generateMessageId_storage rt email @ ''.eml''\<rparr>\<rparr>)\<rparr>)\<rparr>))))"
  using assms
  by (simp add: save_email_in_bucket_try_def Let_def capture_stream_def
      uploadEmailToStorage_run)

lemma save_try_success:
  assumes "fst (save_email_in_bucket_try cfg rt conn txn ms s) = Returned"
  obtains email where "captureStream_error rt = None" and "stream_error ms = None"
    and "parseEmail_storage rt (concat (stream_chunks ms)) = Inr email"
    and "save_rejects rt = None" and "setMetadata_rejects rt = None"
  using assms
  by (auto simp: save_email_in_bucket_try_def Let_def capture_stream_def
      uploadEmailToStorage_def
      split: sum.splits option.splits prod.splits if_splits promise.splits)

lemma save_try_failure:
  assumes "captureStream_error rt \<noteq> None \<or> stream_error ms \<noteq> None
      \<or> isl (parseEmail_storage rt (concat (stream_chunks ms)))
      \<or> save_rejects rt \<noteq> None \<or> setMetadata_rejects rt \<noteq> None"
  shows "fst (save_email_in_bucket_try cfg rt conn txn ms s) \<noteq> Returned"
proof
  assume "fst (save_email_in_bucket_try cfg rt conn txn ms s) = Returned"
  then obtain email where "captureStream_error rt = None" and "stream_error ms = None"
    and "parseEmail_storage rt (concat (stream_chunks ms)) = Inr email"
    and "save_rejects rt = None" and "setMetadata_rejects rt = None"
    by (rule save_try_success)
  with assms show False by auto
qed

text \<open>
  The continuation's invocations in each case: one, but none when the capture never
  settles.
\<close>

lemma save_email_in_bucket_effect:
  "next_calls (save_email_in_bucket cfg rt s) =
     next_calls s @
       (case connection s of
          None \<Rightarrow> [Next None None]
        | Some conn \<Rightarrow>
            (case transaction conn of
               None \<Rightarrow> [Next None None]
             | Some txn \<Rightarrow>
                 (case message_stream txn of
                    None \<Rightarrow> [Next None None]
                  | Some ms \<Rightarrow>
                      (case fst (save_email_in_bucket_try cfg rt conn txn ms s) of
                         Returned \<Rightarrow>
                           [if queue_isSingleHandler cfg then Next (Some OK) None
                            else Next None None]
                       | Threw e \<Rightarrow> [Next (Some DENYSOFT) (Some ''Persistence error'')]
                       | Never_settles \<Rightarrow> []))))"
proof (cases "connection s")
  case None
  then show ?thesis by (simp add: save_email_in_bucket_def call_next_def)
next
  case (Some conn)
  show ?thesis
  proof (cases "transaction conn")
    case None
    with Some show ?thesis by (simp add: save_email_in_bucket_def call_next_def)
  next
    case txn: (Some txn)
    show ?thesis
    proof (cases "message_stream txn")
      case None
      with Some txn show ?thesis by (simp add: save_email_in_bucket_def call_next_def)
    next
      case ms: (Some ms)
      obtain r s1 where t: "save_email_in_bucket_try cfg rt conn txn ms s = (r, s1)"
        by (cases "save_email_in_bucket_try cfg rt conn txn ms s")
      show ?thesis
      proof (cases r)
        case Returned
        with t have "fst (save_email_in_bucket_try cfg rt conn txn ms s) = Returned"
          by simp
        then obtain email where "captureStream_error rt = None" and "stream_error ms = None"
          and "parseEmail_storage rt (concat (stream_chunks ms)) = Inr email"
          and "save_rejects rt = None" and "setMetadata_rejects rt = None"
          by (rule save_try_success)
        from save_try_run [OF this] Some txn ms show ?thesis
          by (simp add: save_email_in_bucket_def call_next_def connection_loginfo_def
              loginfo_def)
      next
        case (Threw e)
        with t save_try_error_state(2) [of cfg rt conn txn ms s] Some txn ms
        show ?thesis
          by (simp add: save_email_in_bucket_def call_next_def logerror_def)
      next
        case Never_settles
        with t save_try_error_state(2) [of cfg rt conn txn ms s] Some txn ms
        show ?thesis
          by (simp add: save_email_in_bucket_def)
      qed
    qed
  qed
qed

section \<open>The identifier of the metadata document\<close>

text \<open>
  Claim C1. Take a run of the metadata stage on a connection with a transaction. When
  the body of the stage raises an error, no document is written. When it completes, it
  has written one document, for the first recipient matched; the key of the document
  and its \<^verbatim>\<open>messageId\<close> field are the \<^verbatim>\<open>messageId\<close> of the storage reference in the
  transaction's notes when there is one, verbatim, and the result of
  \<^verbatim>\<open>generateMessageId\<close> only when there is none.
\<close>

theorem persist_email_details_reuses_identifier:
  assumes "connection s = Some conn" and "transaction conn = Some txn"
  shows "(fst (persist_email_details_try cfg rt txn s) \<noteq> None \<longrightarrow>
            firestore_documents (persist_email_details cfg rt s) = firestore_documents s)
       \<and> (fst (persist_email_details_try cfg rt txn s) = None \<longrightarrow>
            (\<exists>email key d ds.
               parseEmail_firestore rt txn = Inr email
             \<and> query_where
                 (firestore_collections s (firestore_merchantsPaymentNotificationsCollection cfg))
                 (or_empty (text_of (email_to email))) = d # ds
             \<and> (case notes_storageReference txn of
                   Some r \<Rightarrow> key = ref_messageId r
                 | None \<Rightarrow> generateMessageId_firestore email = Inr key)
             \<and> (let details = constructMessageDetails rt email key (notes_storageReference txn)
                 in firestore_documents (persist_email_details cfg rt s) =
                      (firestore_documents s)
                        (document_path
                           (firestore_merchantsPaymentNotificationsCollection cfg)
                           (doc_id d)
                           (firestore_merchantNotificationCollection cfg)
                           key
                         \<mapsto> details)
                    \<and> md_messageId details = key)))"
proof (intro conjI impI)
  assume "fst (persist_email_details_try cfg rt txn s) \<noteq> None"
  then obtain e s1 where t: "persist_email_details_try cfg rt txn s = (Some e, s1)"
    by (cases "persist_email_details_try cfg rt txn s") auto
  from persist_email_details_caught [OF assms t]
  show "firestore_documents (persist_email_details cfg rt s) = firestore_documents s"
    by (simp add: call_next_def logerror_def)
next
  assume ok: "fst (persist_email_details_try cfg rt txn s) = None"
  then obtain email key d ds where steps:
    "parseEmail_firestore rt txn = Inr email"
    "resolve_messageId (notes_storageReference txn) email = Inr key"
    "get_rejects rt = None"
    "query_where
       (firestore_collections s (firestore_merchantsPaymentNotificationsCollection cfg))
       (or_empty (text_of (email_to email))) = d # ds"
    "set_rejects rt = None"
    by (rule persist_try_success)
  from persist_try_run [OF steps] assms
  have w: "firestore_documents (persist_email_details cfg rt s) =
          (firestore_documents s)
            (document_path
               (firestore_merchantsPaymentNotificationsCollection cfg)
               (doc_id d)
               (firestore_merchantNotificationCollection cfg)
               key
             \<mapsto> constructMessageDetails rt email key (notes_storageReference txn))"
    by (simp add: persist_email_details_def call_next_def loginfo_def)
  have m: "md_messageId (constructMessageDetails rt email key (notes_storageReference txn))
             = key"
    by (simp add: constructMessageDetails_def)
  from steps(2)
  have k: "case notes_storageReference txn of
             Some r \<Rightarrow> key = ref_messageId r
           | None \<Rightarrow> generateMessageId_firestore email = Inr key"
    by (auto simp: resolve_messageId_def split: option.splits)
  have "parseEmail_firestore rt txn = Inr email
     \<and> query_where
         (firestore_collections s (firestore_merchantsPaymentNotificationsCollection cfg))
         (or_empty (text_of (email_to email))) = d # ds
     \<and> (case notes_storageReference txn of
           Some r \<Rightarrow> key = ref_messageId r
         | None \<Rightarrow> generateMessageId_firestore email = Inr key)
     \<and> (let details = constructMessageDetails rt email key (notes_storageReference txn)
         in firestore_documents (persist_email_details cfg rt s) =
              (firestore_documents s)
                (document_path
                   (firestore_merchantsPaymentNotificationsCollection cfg)
                   (doc_id d)
                   (firestore_merchantNotificationCollection cfg)
                   key
                 \<mapsto> details)
            \<and> md_messageId details = key)"
    using steps(1,4) k w m by (simp add: Let_def)
  then show "\<exists>email key d ds.
       parseEmail_firestore rt txn = Inr email
     \<and> query_where
         (firestore_collections s (firestore_merchantsPaymentNotificationsCollection cfg))
         (or_empty (text_of (email_to email))) = d # ds
     \<and> (case notes_storageReference txn of
           Some r \<Rightarrow> key = ref_messageId r
         | None \<Rightarrow> generateMessageId_firestore email = Inr key)
     \<and> (let details = constructMessageDetails rt email key (notes_storageReference txn)
         in firestore_documents (persist_email_details cfg rt s) =
              (firestore_documents s)
                (document_path
                   (firestore_merchantsPaymentNotificationsCollection cfg)
                   (doc_id d)
                   (firestore_merchantNotificationCollection cfg)
                   key
                 \<mapsto> details)
            \<and> md_messageId details = key)"
    by blast
qed

text \<open>
  At the example state with the archival stage's reference in the notes, the document
  is keyed by the reference's identifier, though the message has no identifier of its
  own; without a reference, a message with the header \<open><abc@x>\<close> is keyed by \<open>abc@x\<close>.
\<close>

theorem persist_email_details_reuses_identifier_witness:
  "map_option md_messageId
     (firestore_documents
        (persist_email_details example_firestore_cfg example_runtime example_state_archived)
        ''merchants/m1/notifications/031425364758697a8b9cadbecfe0f102-1700000000000'')
     = Some ''031425364758697a8b9cadbecfe0f102-1700000000000''
   \<and> map_option md_messageId
     (firestore_documents
        (persist_email_details example_firestore_cfg first_delivery example_state)
        ''merchants/m1/notifications/abc@x'')
     = Some ''abc@x''"
proof -
  let ?txn = "example_transaction\<lparr>notes_storageReference := Some example_reference\<rparr>"
  have run: "fst (persist_email_details_try example_firestore_cfg example_runtime ?txn
                    example_state_archived) = None"
    by (simp add: persist_email_details_try_def parseEmail_firestore_def Let_def
        resolve_messageId_def constructMessageDetails_def query_where_def example_defs
        or_empty_def text_of_def)
  have run': "fst (persist_email_details_try example_firestore_cfg first_delivery
                     example_transaction example_state) = None"
    by (simp add: persist_email_details_try_def parseEmail_firestore_def Let_def
        resolve_messageId_def generateMessageId_firestore_def constructMessageDetails_def
        query_where_def example_defs or_empty_def text_of_def)
  have parse: "parseEmail_firestore example_runtime txn = Inr scenario_email"
    and parse': "parseEmail_firestore first_delivery txn
                   = Inr (scenario_email\<lparr>email_messageId := Some ''<abc@x>''\<rparr>)" for txn
    by (simp_all add: parseEmail_firestore_def example_runtime_def first_delivery_def)
  have "connection example_state_archived = Some \<lparr>transaction = Some ?txn\<rparr>"
    by (simp add: example_state_archived_def)
  from persist_email_details_reuses_identifier
         [OF this, of ?txn example_firestore_cfg example_runtime]
  have a: "map_option md_messageId
     (firestore_documents
        (persist_email_details example_firestore_cfg example_runtime example_state_archived)
        ''merchants/m1/notifications/031425364758697a8b9cadbecfe0f102-1700000000000'')
     = Some ''031425364758697a8b9cadbecfe0f102-1700000000000''"
    by (simp add: run parse Let_def)
       (auto simp: example_defs query_where_def or_empty_def text_of_def document_path_def
          constructMessageDetails_def)
  have "connection example_state = Some \<lparr>transaction = Some example_transaction\<rparr>"
    by (simp add: example_state_def)
  from persist_email_details_reuses_identifier
         [OF this, of example_transaction example_firestore_cfg first_delivery]
  have b: "map_option md_messageId
     (firestore_documents
        (persist_email_details example_firestore_cfg first_delivery example_state)
        ''merchants/m1/notifications/abc@x'')
     = Some ''abc@x''"
    by (simp add: run' parse' Let_def)
       (auto simp: example_defs query_where_def or_empty_def text_of_def document_path_def
          constructMessageDetails_def generateMessageId_firestore_def
          replace_angle_brackets_def)
  from a b show ?thesis ..
qed

section \<open>Errors and the continuation\<close>

text \<open>
  The runs that invoke the continuation exactly once: every run of the metadata
  stage, and every run of the archival stage but those whose capture never settles.
  An error thrown in the \<^verbatim>\<open>try\<close> block ends as \<^verbatim>\<open>next(DENYSOFT, "Persistence error")\<close>.
\<close>

lemma save_try_never_settles:
  assumes "fst (save_email_in_bucket_try cfg rt conn txn ms s) = Never_settles"
  shows "captureStream_error rt = None \<and> stream_error ms \<noteq> None"
  using assms
  by (auto simp: save_email_in_bucket_try_def Let_def capture_stream_def
      split: sum.splits option.splits prod.splits if_splits)

lemma stages_call_next_once_otherwise:
  "(\<exists>c. next_calls (persist_email_details fcfg rt s) = next_calls s @ [c])
   \<and> ((\<forall>conn txn ms.
          connection s = Some conn \<and> transaction conn = Some txn
          \<and> message_stream txn = Some ms
          \<longrightarrow> captureStream_error rt \<noteq> None \<or> stream_error ms = None)
       \<longrightarrow> (\<exists>c. next_calls (save_email_in_bucket scfg rt s) = next_calls s @ [c]))
   \<and> (\<forall>conn txn e.
         connection s = Some conn \<and> transaction conn = Some txn
         \<and> fst (persist_email_details_try fcfg rt txn s) = Some e
         \<longrightarrow> next_calls (persist_email_details fcfg rt s)
               = next_calls s @ [Next (Some DENYSOFT) (Some ''Persistence error'')])
   \<and> (\<forall>conn txn ms e.
         connection s = Some conn \<and> transaction conn = Some txn
         \<and> message_stream txn = Some ms
         \<and> fst (save_email_in_bucket_try scfg rt conn txn ms s) = Threw e
         \<longrightarrow> next_calls (save_email_in_bucket scfg rt s)
               = next_calls s @ [Next (Some DENYSOFT) (Some ''Persistence error'')])"
  using persist_email_details_effect [of fcfg rt s] save_email_in_bucket_effect [of scfg rt s]
    save_try_never_settles [of scfg rt _ _ _ s]
  by (auto split: option.splits completion.splits)

text \<open>
  Claim C4, on the code. When the message stream emits \<^verbatim>\<open>error\<close> while it is captured
  (and the pass-through stream, the only one with a handler, emits none), the promise
  of lines 223 to 233 never settles: the archival stage stops at its \<^verbatim>\<open>await\<close>, the
  state stays as it was and the continuation is not invoked, neither once nor ever.
\<close>

theorem save_email_in_bucket_stream_error_no_continuation:
  assumes "connection s = Some conn" and "transaction conn = Some txn"
    and "message_stream txn = Some ms"
    and "stream_error ms = Some e" and "captureStream_error rt = None"
  shows "save_email_in_bucket cfg rt s = s
       \<and> next_calls (save_email_in_bucket cfg rt s) = next_calls s
       \<and> (\<nexists>c. next_calls (save_email_in_bucket cfg rt s) = next_calls s @ [c])"
proof -
  from save_try_pending [OF assms(5,4)] assms(1-3)
  have "save_email_in_bucket cfg rt s = s"
    by (simp add: save_email_in_bucket_def)
  then show ?thesis by simp
qed

text \<open>The example state with a stream that delivers one chunk and then fails.\<close>

theorem save_email_in_bucket_stream_error_no_continuation_witness:
  "next_calls
     (save_email_in_bucket example_storage_cfg example_runtime
        (example_state\<lparr>connection :=
           Some \<lparr>transaction =
             Some (example_transaction\<lparr>message_stream :=
               Some \<lparr>stream_chunks = [[104]], stream_error = Some example_error\<rparr>\<rparr>)\<rparr>\<rparr>))
     = []"
proof -
  let ?broken = "\<lparr>stream_chunks = [[104]], stream_error = Some example_error\<rparr>"
  let ?txn = "example_transaction\<lparr>message_stream := Some ?broken\<rparr>"
  let ?s = "example_state\<lparr>connection := Some \<lparr>transaction = Some ?txn\<rparr>\<rparr>"
  have c: "connection ?s = Some \<lparr>transaction = Some ?txn\<rparr>"
    and t: "transaction \<lparr>transaction = Some ?txn\<rparr> = Some ?txn"
    and m: "message_stream ?txn = Some ?broken"
    and e: "stream_error ?broken = Some example_error"
    and p: "captureStream_error example_runtime = None"
    and n: "next_calls ?s = []"
    by (simp_all add: example_transaction_def example_runtime_def example_state_def)
  from save_email_in_bucket_stream_error_no_continuation
         [OF c t m e p, of example_storage_cfg] n
  show ?thesis by simp
qed

text \<open>
  Claim C5, as the code has it. When the message parses and no document of the
  recipient collection has the message's \<^verbatim>\<open>to\<close> text as its \<^verbatim>\<open>notifications_email\<close>,
  the metadata stage ends with \<^verbatim>\<open>next(DENYSOFT, "Persistence error")\<close>, not with
  \<^verbatim>\<open>next(OK)\<close>, and has written no document. No error of the lookup's own is
  raised: when the identifier resolved and the query was answered, the error thrown,
  and logged, is the \<^verbatim>\<open>TypeError\<close> of reading \<^verbatim>\<open>.ref\<close> of the missing first match.
\<close>

theorem persist_email_details_no_recipient:
  assumes "connection s = Some conn" and "transaction conn = Some txn"
    and "parseEmail_firestore rt txn = Inr email"
    and "query_where
           (firestore_collections s (firestore_merchantsPaymentNotificationsCollection cfg))
           (or_empty (text_of (email_to email))) = []"
  shows "next_calls (persist_email_details cfg rt s)
           = next_calls s @ [Next (Some DENYSOFT) (Some ''Persistence error'')]
       \<and> last (next_calls (persist_email_details cfg rt s)) \<noteq> Next (Some OK) None
       \<and> firestore_documents (persist_email_details cfg rt s) = firestore_documents s
       \<and> (\<forall>messageId.
             resolve_messageId (notes_storageReference txn) email = Inr messageId
             \<and> get_rejects rt = None \<longrightarrow>
               fst (persist_email_details_try cfg rt txn s) = Some undefined_ref_error
             \<and> log (persist_email_details cfg rt s)
                 = log s @ [Logerror (''Failed to persist email details in Firestore: ''
                                        @ error_message undefined_ref_error)])"
  using persist_email_details_caught [OF assms(1,2) persist_try_no_match [OF assms(3,4)]]
    persist_try_no_match [OF assms(3,4)]
  by (auto simp: call_next_def logerror_def)

text \<open>
  The message with the header \<open><abc@x>\<close>, whose identifier resolves, and a recipient
  collection \<open>sellers\<close> that has no document.
\<close>

theorem persist_email_details_no_recipient_witness:
  "next_calls
     (persist_email_details
        (example_firestore_cfg\<lparr>firestore_merchantsPaymentNotificationsCollection := ''sellers''\<rparr>)
        first_delivery example_state)
     = [Next (Some DENYSOFT) (Some ''Persistence error'')]
   \<and> firestore_documents
     (persist_email_details
        (example_firestore_cfg\<lparr>firestore_merchantsPaymentNotificationsCollection := ''sellers''\<rparr>)
        first_delivery example_state) = Map.empty
   \<and> log
     (persist_email_details
        (example_firestore_cfg\<lparr>firestore_merchantsPaymentNotificationsCollection := ''sellers''\<rparr>)
        first_delivery example_state)
     = [Logerror (''Failed to persist email details in Firestore: ''
                    @ error_message undefined_ref_error)]"
proof -
  let ?cfg =
    "example_firestore_cfg\<lparr>firestore_merchantsPaymentNotificationsCollection := ''sellers''\<rparr>"
  let ?email = "scenario_email\<lparr>email_messageId := Some ''<abc@x>''\<rparr>"
  have c: "connection example_state = Some \<lparr>transaction = Some example_transaction\<rparr>"
    by (simp add: example_state_def)
  have t: "transaction \<lparr>transaction = Some example_transaction\<rparr> = Some example_transaction"
    by simp
  have p: "parseEmail_firestore first_delivery example_transaction = Inr ?email"
    by (simp add: parseEmail_firestore_def first_delivery_def example_runtime_def)
  have q: "query_where
             (firestore_collections example_state
                (firestore_merchantsPaymentNotificationsCollection ?cfg))
             (or_empty (text_of (email_to ?email))) = []"
    by (simp add: query_where_def example_defs)
  have r: "resolve_messageId (notes_storageReference example_transaction) ?email
             = Inr ''abc@x''"
    by (simp add: resolve_messageId_def example_transaction_def generateMessageId_firestore_def
        replace_angle_brackets_def)
  have g: "get_rejects first_delivery = None"
    by (simp add: first_delivery_def example_runtime_def)
  from persist_email_details_no_recipient [OF c t p q] r g show ?thesis
    by (simp add: example_state_def)
qed

text \<open>
  Claim C5 as the specification words it asks for an explicit lookup error surfaced
  to the coordinator. On the input of the witness the error of the \<^verbatim>\<open>try\<close> block is a
  \<^verbatim>\<open>TypeError\<close>, and the coordinator receives what it receives when the \<^verbatim>\<open>set\<close> of
  the document is rejected for a matched recipient: the same code and the same reason.
\<close>

theorem persist_email_details_no_lookup_error_counterexample:
  "fst (persist_email_details_try
          (example_firestore_cfg\<lparr>firestore_merchantsPaymentNotificationsCollection := ''sellers''\<rparr>)
          first_delivery example_transaction example_state)
     = Some undefined_ref_error
   \<and> error_name undefined_ref_error = ''TypeError''
   \<and> next_calls
       (persist_email_details
          (example_firestore_cfg\<lparr>firestore_merchantsPaymentNotificationsCollection := ''sellers''\<rparr>)
          first_delivery example_state)
     = [Next (Some DENYSOFT) (Some ''Persistence error'')]
   \<and> next_calls
       (persist_email_details example_firestore_cfg
          (first_delivery\<lparr>set_rejects := Some example_error\<rparr>) example_state)
     = [Next (Some DENYSOFT) (Some ''Persistence error'')]"
  by (simp add: persist_email_details_def persist_email_details_try_def
      parseEmail_firestore_def resolve_messageId_def generateMessageId_firestore_def
      constructMessageDetails_def query_where_def or_empty_def text_of_def Let_def
      call_next_def logerror_def undefined_ref_error_def example_defs)

section \<open>The archival stage's outcome\<close>

text \<open>
  Claim C7. When the body of the archival stage completes without an error, the stage
  invokes the continuation once: with \<^verbatim>\<open>OK\<close> when \<^verbatim>\<open>queue.isSingleHandler\<close> is set,
  and with no argument otherwise.
\<close>

theorem save_email_in_bucket_success_continuation:
  assumes "connection s = Some conn" and "transaction conn = Some txn"
    and "message_stream txn = Some ms"
    and "fst (save_email_in_bucket_try cfg rt conn txn ms s) = Returned"
  shows "next_calls (save_email_in_bucket cfg rt s)
           = next_calls s
               @ [if queue_isSingleHandler cfg then Next (Some OK) None else Next None None]"
  using save_email_in_bucket_effect [of cfg rt s] assms by simp

theorem save_email_in_bucket_success_continuation_witness:
  "next_calls
     (save_email_in_bucket (example_storage_cfg\<lparr>queue_isSingleHandler := True\<rparr>)
        example_runtime example_state) = [Next (Some OK) None]
   \<and> next_calls (save_email_in_bucket example_storage_cfg example_runtime example_state)
       = [Next None None]"
proof -
  have c: "connection example_state = Some \<lparr>transaction = Some example_transaction\<rparr>"
    and t: "transaction \<lparr>transaction = Some example_transaction\<rparr>
              = Some example_transaction"
    and m: "message_stream example_transaction
              = Some \<lparr>stream_chunks = [[104], [105]], stream_error = None\<rparr>"
    and n: "next_calls example_state = []"
    by (simp_all add: example_state_def example_transaction_def)
  have ok: "fst (save_email_in_bucket_try cfg example_runtime
                   \<lparr>transaction = Some example_transaction\<rparr> example_transaction
                   \<lparr>stream_chunks = [[104], [105]], stream_error = None\<rparr> example_state)
              = Returned" for cfg
    by (simp add: save_email_in_bucket_try_def capture_stream_def parseEmail_storage_def
        uploadEmailToStorage_def Let_def example_runtime_def)
  from save_email_in_bucket_success_continuation [OF c t m ok]
  have "next_calls
          (save_email_in_bucket (example_storage_cfg\<lparr>queue_isSingleHandler := True\<rparr>)
             example_runtime example_state) = [Next (Some OK) None]"
    by (simp add: n)
  moreover from save_email_in_bucket_success_continuation [OF c t m ok]
  have "next_calls (save_email_in_bucket example_storage_cfg example_runtime example_state)
          = [Next None None]"
    by (simp add: n example_storage_cfg_def)
  ultimately show ?thesis ..
qed

text \<open>
  Claim C10. When the capture of the stream, the parsing, the upload of the body or
  the attaching of the metadata fails, the archival stage leaves the connection as it
  was, so the notes of its transaction carry the storage reference they carried before
  (none, for a fresh transaction). The capture fails when the pass-through stream
  emits an error, which rejects the promise, or when the message stream does, which
  leaves the promise unsettled and the stage waiting. When the message stream emits no
  error, the failed stage ends with \<^verbatim>\<open>next(DENYSOFT, "Persistence error")\<close>.
\<close>

theorem save_email_in_bucket_failure_keeps_notes:
  assumes "connection s = Some conn" and "transaction conn = Some txn"
    and "message_stream txn = Some ms"
    and "captureStream_error rt \<noteq> None
       \<or> stream_error ms \<noteq> None
       \<or> isl (parseEmail_storage rt (concat (stream_chunks ms)))
       \<or> save_rejects rt \<noteq> None
       \<or> setMetadata_rejects rt \<noteq> None"
  shows "connection (save_email_in_bucket cfg rt s) = connection s
       \<and> storageReference_of (save_email_in_bucket cfg rt s) = notes_storageReference txn
       \<and> (stream_error ms = None \<longrightarrow>
             next_calls (save_email_in_bucket cfg rt s)
               = next_calls s @ [Next (Some DENYSOFT) (Some ''Persistence error'')])"
proof -
  let ?body = "save_email_in_bucket_try cfg rt conn txn ms s"
  have f: "fst ?body \<noteq> Returned"
    by (rule save_try_failure [OF assms(4)])
  obtain r s1 where t: "?body = (r, s1)"
    by (cases ?body)
  from save_try_error_state(1) [OF f] t have c1: "connection s1 = connection s"
    by simp
  have conn: "connection (save_email_in_bucket cfg rt s) = connection s"
    using assms(1-3) t f c1
    by (cases r) (simp_all add: save_email_in_bucket_def call_next_def logerror_def)
  have "r \<noteq> Never_settles" if "stream_error ms = None"
    using save_try_never_settles [of cfg rt conn txn ms s] t that by auto
  with f t have "\<exists>e. fst ?body = Threw e" if "stream_error ms = None"
    using that by (cases r) auto
  with save_email_in_bucket_effect [of cfg rt s] assms(1-3)
  have "next_calls (save_email_in_bucket cfg rt s)
          = next_calls s @ [Next (Some DENYSOFT) (Some ''Persistence error'')]"
    if "stream_error ms = None"
    using that by auto
  with conn assms(1,2) show ?thesis
    by (simp add: storageReference_of_def)
qed

text \<open>
  Each failure on the example state, whose notes carry no reference: the message
  stream's error, the pass-through stream's, the parser's, and the two rejections of
  the bucket.
\<close>

theorem save_email_in_bucket_failure_keeps_notes_witness:
  "storageReference_of
     (save_email_in_bucket example_storage_cfg example_runtime
        (example_state\<lparr>connection :=
           Some \<lparr>transaction =
             Some (example_transaction\<lparr>message_stream :=
               Some \<lparr>stream_chunks = [[104]], stream_error = Some example_error\<rparr>\<rparr>)\<rparr>\<rparr>))
     = None
   \<and> storageReference_of
     (save_email_in_bucket example_storage_cfg
        (example_runtime\<lparr>captureStream_error := Some example_error\<rparr>) example_state) = None
   \<and> storageReference_of
     (save_email_in_bucket example_storage_cfg
        (example_runtime\<lparr>simpleParser := (\<lambda>_. Inl example_error)\<rparr>) example_state) = None
   \<and> storageReference_of
     (save_email_in_bucket example_storage_cfg
        (example_runtime\<lparr>save_rejects := Some example_error\<rparr>) example_state) = None
   \<and> storageReference_of
     (save_email_in_bucket example_storage_cfg
        (example_runtime\<lparr>setMetadata_rejects := Some example_error\<rparr>) example_state) = None
   \<and> next_calls
     (save_email_in_bucket example_storage_cfg
        (example_runtime\<lparr>setMetadata_rejects := Some example_error\<rparr>) example_state)
     = [Next (Some DENYSOFT) (Some ''Persistence error'')]"
proof -
  let ?broken = "\<lparr>stream_chunks = [[104]], stream_error = Some example_error\<rparr>"
  let ?txn = "example_transaction\<lparr>message_stream := Some ?broken\<rparr>"
  let ?s = "example_state\<lparr>connection := Some \<lparr>transaction = Some ?txn\<rparr>\<rparr>"
  let ?ms = "\<lparr>stream_chunks = [[104], [105]], stream_error = None\<rparr>"
  have c: "connection example_state = Some \<lparr>transaction = Some example_transaction\<rparr>"
    and t: "transaction \<lparr>transaction = Some example_transaction\<rparr>
              = Some example_transaction"
    and m: "message_stream example_transaction = Some ?ms"
    and r: "notes_storageReference example_transaction = None"
    and n: "next_calls example_state = []"
    by (simp_all add: example_state_def example_transaction_def)
  have c': "connection ?s = Some \<lparr>transaction = Some ?txn\<rparr>"
    and t': "transaction \<lparr>transaction = Some ?txn\<rparr> = Some ?txn"
    and m': "message_stream ?txn = Some ?broken"
    and r': "notes_storageReference ?txn = None"
    by (simp_all add: example_transaction_def)
  have "storageReference_of (save_email_in_bucket example_storage_cfg example_runtime ?s)
          = None"
    using save_email_in_bucket_failure_keeps_notes
            [OF c' t' m', of example_runtime example_storage_cfg] r'
    by simp
  moreover have "storageReference_of
     (save_email_in_bucket example_storage_cfg
        (example_runtime\<lparr>captureStream_error := Some example_error\<rparr>) example_state) = None"
    using save_email_in_bucket_failure_keeps_notes
            [OF c t m, of "example_runtime\<lparr>captureStream_error := Some example_error\<rparr>"
               example_storage_cfg] r
    by simp
  moreover have "storageReference_of
     (save_email_in_bucket example_storage_cfg
        (example_runtime\<lparr>simpleParser := (\<lambda>_. Inl example_error)\<rparr>) example_state) = None"
    using save_email_in_bucket_failure_keeps_notes
            [OF c t m, of "example_runtime\<lparr>simpleParser := (\<lambda>_. Inl example_error)\<rparr>"
               example_storage_cfg] r
    by (simp add: parseEmail_storage_def)
  moreover have "storageReference_of
     (save_email_in_bucket example_storage_cfg
        (example_runtime\<lparr>save_rejects := Some example_error\<rparr>) example_state) = None"
    using save_email_in_bucket_failure_keeps_notes
            [OF c t m, of "example_runtime\<lparr>save_rejects := Some example_error\<rparr>"
               example_storage_cfg] r
    by simp
  moreover have "storageReference_of
     (save_email_in_bucket example_storage_cfg
        (example_runtime\<lparr>setMetadata_rejects := Some example_error\<rparr>) example_state) = None
   \<and> next_calls
     (save_email_in_bucket example_storage_cfg
        (example_runtime\<lparr>setMetadata_rejects := Some example_error\<rparr>) example_state)
     = [Next (Some DENYSOFT) (Some ''Persistence error'')]"
    using save_email_in_bucket_failure_keeps_notes
            [OF c t m, of "example_runtime\<lparr>setMetadata_rejects := Some example_error\<rparr>"
               example_storage_cfg] r n
    by simp
  ultimately show ?thesis by simp
qed

section \<open>What the stages persist\<close>

text \<open>
  Claim C6. When the body of the archival stage completes, with \<open>id\<close> the identifier
  it resolved and \<open>b\<close> the configured bucket, the raw message is the object of bucket
  \<open>b\<close> named \<open>emails/id.eml\<close>, and the storage reference in the notes has
  \<^verbatim>\<open>bucketName\<close> \<open>b\<close>, \<^verbatim>\<open>objectName\<close> that name, \<^verbatim>\<open>messageId\<close> \<open>id\<close> and
  \<^verbatim>\<open>storageUrl\<close> \<open>gs://b/emails/id.eml\<close>. When the body of the metadata stage
  completes, the document it wrote is at the path made of the recipient collection, the
  identifier of the first matched recipient document, the metadata sub-collection and
  the message identifier, joined by \<open>/\<close>.
\<close>

theorem persisted_layout:
  "(connection s = Some conn \<and> transaction conn = Some txn \<and> message_stream txn = Some ms
      \<and> fst (save_email_in_bucket_try scfg rt conn txn ms s) = Returned
    \<longrightarrow> (\<exists>email.
           parseEmail_storage rt (concat (stream_chunks ms)) = Inr email
         \<and> (let id = generateMessageId_storage rt email;
                 b = storage_bucketName scfg;
                 key = ''emails/'' @ id @ ''.eml''
             in gcpStorage (save_email_in_bucket scfg rt s) =
                  (gcpStorage s)
                    ((b, key) \<mapsto>
                       \<lparr>object_body = concat (stream_chunks ms),
                        object_metadata = Some (constructObjectMetadata rt email id)\<rparr>)
                \<and> storageReference_of (save_email_in_bucket scfg rt s) =
                    Some \<lparr>ref_bucketName = b, ref_objectName = key, ref_messageId = id,
                          ref_storageUrl = ''gs://'' @ b @ ''/'' @ key\<rparr>)))
   \<and> (connection s' = Some conn' \<and> transaction conn' = Some txn'
      \<and> fst (persist_email_details_try fcfg rt' txn' s') = None
    \<longrightarrow> (\<exists>email id d ds.
           parseEmail_firestore rt' txn' = Inr email
         \<and> resolve_messageId (notes_storageReference txn') email = Inr id
         \<and> query_where
             (firestore_collections s' (firestore_merchantsPaymentNotificationsCollection fcfg))
             (or_empty (text_of (email_to email))) = d # ds
         \<and> firestore_documents (persist_email_details fcfg rt' s') =
             (firestore_documents s')
               (firestore_merchantsPaymentNotificationsCollection fcfg @ ''/'' @ doc_id d
                  @ ''/'' @ firestore_merchantNotificationCollection fcfg @ ''/'' @ id
                \<mapsto> constructMessageDetails rt' email id (notes_storageReference txn'))))"
proof (intro conjI impI; elim conjE)
  assume c: "connection s = Some conn" and t: "transaction conn = Some txn"
    and m: "message_stream txn = Some ms"
    and ok: "fst (save_email_in_bucket_try scfg rt conn txn ms s) = Returned"
  from ok obtain email where steps: "captureStream_error rt = None" "stream_error ms = None"
    "parseEmail_storage rt (concat (stream_chunks ms)) = Inr email"
    "save_rejects rt = None" "setMetadata_rejects rt = None"
    by (rule save_try_success)
  from save_try_run [OF steps, of scfg conn txn s] c t m
  have "save_email_in_bucket scfg rt s =
          snd (save_email_in_bucket_try scfg rt conn txn ms s)"
    by (simp add: save_email_in_bucket_def)
  with save_try_run [OF steps, of scfg conn txn s] steps(3)
  show "\<exists>email.
           parseEmail_storage rt (concat (stream_chunks ms)) = Inr email
         \<and> (let id = generateMessageId_storage rt email;
                 b = storage_bucketName scfg;
                 key = ''emails/'' @ id @ ''.eml''
             in gcpStorage (save_email_in_bucket scfg rt s) =
                  (gcpStorage s)
                    ((b, key) \<mapsto>
                       \<lparr>object_body = concat (stream_chunks ms),
                        object_metadata = Some (constructObjectMetadata rt email id)\<rparr>)
                \<and> storageReference_of (save_email_in_bucket scfg rt s) =
                    Some \<lparr>ref_bucketName = b, ref_objectName = key, ref_messageId = id,
                          ref_storageUrl = ''gs://'' @ b @ ''/'' @ key\<rparr>)"
    by (simp add: Let_def call_next_def connection_loginfo_def loginfo_def
        storageReference_of_def)
next
  assume c: "connection s' = Some conn'" and t: "transaction conn' = Some txn'"
    and ok: "fst (persist_email_details_try fcfg rt' txn' s') = None"
  from ok obtain email id d ds where steps:
    "parseEmail_firestore rt' txn' = Inr email"
    "resolve_messageId (notes_storageReference txn') email = Inr id"
    "get_rejects rt' = None"
    "query_where
       (firestore_collections s' (firestore_merchantsPaymentNotificationsCollection fcfg))
       (or_empty (text_of (email_to email))) = d # ds"
    "set_rejects rt' = None"
    by (rule persist_try_success)
  from persist_try_run [OF steps] c t
  have "firestore_documents (persist_email_details fcfg rt' s') =
          (firestore_documents s')
            (firestore_merchantsPaymentNotificationsCollection fcfg @ ''/'' @ doc_id d
               @ ''/'' @ firestore_merchantNotificationCollection fcfg @ ''/'' @ id
             \<mapsto> constructMessageDetails rt' email id (notes_storageReference txn'))"
    by (simp add: persist_email_details_def call_next_def loginfo_def document_path_def)
  with steps(1,2,4)
  show "\<exists>email id d ds.
           parseEmail_firestore rt' txn' = Inr email
         \<and> resolve_messageId (notes_storageReference txn') email = Inr id
         \<and> query_where
             (firestore_collections s' (firestore_merchantsPaymentNotificationsCollection fcfg))
             (or_empty (text_of (email_to email))) = d # ds
         \<and> firestore_documents (persist_email_details fcfg rt' s') =
             (firestore_documents s')
               (firestore_merchantsPaymentNotificationsCollection fcfg @ ''/'' @ doc_id d
                  @ ''/'' @ firestore_merchantNotificationCollection fcfg @ ''/'' @ id
                \<mapsto> constructMessageDetails rt' email id (notes_storageReference txn'))"
    by blast
qed

text \<open>
  The two stages on the example state: the object \<open>emails/\<dots>.eml\<close> of bucket \<open>mail\<close>
  holds the two bytes of the stream, the published reference is \<open>example_reference\<close>,
  and the only document of the store afterwards is under recipient \<open>m1\<close>.
\<close>

theorem persisted_layout_witness:
  "map_option object_body
     (gcpStorage (save_email_in_bucket example_storage_cfg example_runtime example_state)
        (''mail'', ''emails/031425364758697a8b9cadbecfe0f102-1700000000000.eml''))
     = Some [104, 105]
   \<and> storageReference_of
       (save_email_in_bucket example_storage_cfg example_runtime example_state)
     = Some example_reference
   \<and> dom (firestore_documents
       (persist_email_details example_firestore_cfg example_runtime example_state_archived))
     = {''merchants/m1/notifications/031425364758697a8b9cadbecfe0f102-1700000000000''}"
proof -
  let ?ms = "\<lparr>stream_chunks = [[104], [105]], stream_error = None\<rparr>"
  let ?txn = "example_transaction\<lparr>notes_storageReference := Some example_reference\<rparr>"
  have c: "connection example_state = Some \<lparr>transaction = Some example_transaction\<rparr>"
    and m: "message_stream example_transaction = Some ?ms"
    and c': "connection example_state_archived = Some \<lparr>transaction = Some ?txn\<rparr>"
    by (simp_all add: example_state_def example_transaction_def example_state_archived_def)
  have ok: "fst (save_email_in_bucket_try example_storage_cfg example_runtime
                   \<lparr>transaction = Some example_transaction\<rparr> example_transaction ?ms
                   example_state) = Returned"
    by (simp add: save_email_in_bucket_try_def capture_stream_def parseEmail_storage_def
        uploadEmailToStorage_def Let_def example_runtime_def)
  have ok': "fst (persist_email_details_try example_firestore_cfg example_runtime ?txn
                    example_state_archived) = None"
    by (simp add: persist_email_details_try_def parseEmail_firestore_def Let_def
        resolve_messageId_def constructMessageDetails_def query_where_def example_defs
        or_empty_def text_of_def)
  have id: "generateMessageId_storage example_runtime scenario_email
              = ''031425364758697a8b9cadbecfe0f102-1700000000000''"
    using example_random_hex example_now_string
    by (simp add: generateMessageId_storage_def scenario_email_def)
       (simp add: example_runtime_def)
  have p: "parseEmail_storage example_runtime buf = Inr scenario_email" for buf
    by (simp add: parseEmail_storage_def example_runtime_def)
  have p': "parseEmail_firestore example_runtime txn = Inr scenario_email" for txn
    by (simp add: parseEmail_firestore_def example_runtime_def)
  note layout =
    persisted_layout
      [of example_state "\<lparr>transaction = Some example_transaction\<rparr>" example_transaction ?ms
          example_storage_cfg example_runtime
          example_state_archived "\<lparr>transaction = Some ?txn\<rparr>" ?txn
          example_firestore_cfg example_runtime]
  from layout c m ok
  have a: "map_option object_body
     (gcpStorage (save_email_in_bucket example_storage_cfg example_runtime example_state)
        (''mail'', ''emails/031425364758697a8b9cadbecfe0f102-1700000000000.eml''))
     = Some [104, 105]"
    and b: "storageReference_of
       (save_email_in_bucket example_storage_cfg example_runtime example_state)
     = Some example_reference"
    by (simp_all add: p id Let_def example_storage_cfg_def example_reference_def)
  from layout c' ok'
  have d: "dom (firestore_documents
       (persist_email_details example_firestore_cfg example_runtime example_state_archived))
     = {''merchants/m1/notifications/031425364758697a8b9cadbecfe0f102-1700000000000''}"
    by (simp add: p' Let_def resolve_messageId_def)
       (auto simp: example_defs query_where_def or_empty_def text_of_def)
  from a b d show ?thesis by simp
qed

text \<open>
  Claim C8, on the code. For the scenario's message and any identifier,
  \<^verbatim>\<open>constructMessageDetails\<close> without a storage reference builds a record with subject
  \<open>Hello\<close>, from \<open>x@y.com\<close>, to \<open>a@example.com\<close>, plain-text length 2, no
  attachment, that identifier and none of the three storage fields; for any message,
  each storage field of the record is the storage reference's, present exactly when a
  reference is. But the metadata stage never builds the scenario's record: with no
  \<^verbatim>\<open>Message-ID\<close> header and no storage reference, line 72 throws the \<^verbatim>\<open>ReferenceError\<close>
  of the unbound \<^verbatim>\<open>crypto\<close> before \<^verbatim>\<open>constructMessageDetails\<close> is called, and the
  stage logs it, writes nothing and ends with \<^verbatim>\<open>next(DENYSOFT, "Persistence error")\<close>.
\<close>

theorem persist_email_details_scenario_no_record:
  assumes "connection s = Some conn" and "transaction conn = Some txn"
    and "notes_storageReference txn = None"
    and "parseEmail_firestore rt txn = Inr scenario_email"
  shows "fst (persist_email_details_try cfg rt txn s) = Some crypto_is_not_defined
       \<and> next_calls (persist_email_details cfg rt s)
           = next_calls s @ [Next (Some DENYSOFT) (Some ''Persistence error'')]
       \<and> log (persist_email_details cfg rt s)
           = log s @ [Logerror
                        ''Failed to persist email details in Firestore: crypto is not defined'']
       \<and> firestore_documents (persist_email_details cfg rt s) = firestore_documents s
       \<and> (let d = constructMessageDetails rt scenario_email messageId None
          in md_subject d = ''Hello'' \<and> md_from d = ''x@y.com'' \<and> md_to d = ''a@example.com''
             \<and> md_plainTextLength d = 2 \<and> md_attachmentsCount d = 0
             \<and> md_messageId d = messageId
             \<and> md_bucketName d = None \<and> md_objectName d = None \<and> md_storageUrl d = None)
       \<and> (let d = constructMessageDetails rt email messageId storageReference
          in md_bucketName d = map_option ref_bucketName storageReference
             \<and> md_objectName d = map_option ref_objectName storageReference
             \<and> md_storageUrl d = map_option ref_storageUrl storageReference
             \<and> (md_bucketName d = None) = (storageReference = None)
             \<and> (md_objectName d = None) = (storageReference = None)
             \<and> (md_storageUrl d = None) = (storageReference = None))"
proof -
  have "resolve_messageId (notes_storageReference txn) scenario_email
          = Inl crypto_is_not_defined"
    using assms(3)
    by (simp add: resolve_messageId_def generateMessageId_firestore_def scenario_email_def)
  from persist_try_unresolved [OF assms(4) this]
  have t: "persist_email_details_try cfg rt txn s = (Some crypto_is_not_defined, s)" .
  from persist_email_details_caught [OF assms(1,2) t]
  have "persist_email_details cfg rt s =
          call_next (Some DENYSOFT) (Some ''Persistence error'')
            (logerror
               (''Failed to persist email details in Firestore: ''
                  @ error_message crypto_is_not_defined) s)" .
  with t show ?thesis
    by (simp add: call_next_def logerror_def crypto_is_not_defined_def
        constructMessageDetails_def Let_def scenario_email_def or_empty_def text_of_def)
qed

text \<open>The scenario on the example state, whose recipient \<open>m1\<close> matches the address.\<close>

theorem persist_email_details_scenario_no_record_witness:
  "next_calls (persist_email_details example_firestore_cfg example_runtime example_state)
     = [Next (Some DENYSOFT) (Some ''Persistence error'')]
   \<and> log (persist_email_details example_firestore_cfg example_runtime example_state)
     = [Logerror ''Failed to persist email details in Firestore: crypto is not defined'']
   \<and> firestore_documents
       (persist_email_details example_firestore_cfg example_runtime example_state)
     = Map.empty"
proof -
  have c: "connection example_state = Some \<lparr>transaction = Some example_transaction\<rparr>"
    and t: "transaction \<lparr>transaction = Some example_transaction\<rparr>
              = Some example_transaction"
    and r: "notes_storageReference example_transaction = None"
    and p: "parseEmail_firestore example_runtime example_transaction = Inr scenario_email"
    by (simp_all add: example_state_def example_transaction_def parseEmail_firestore_def
        example_runtime_def)
  from persist_email_details_scenario_no_record [OF c t r p, of example_firestore_cfg]
  show ?thesis
    by (simp add: example_state_def)
qed

text \<open>
  Claim C9. Run the metadata stage twice for one transaction, the parser returning
  the same message in both runs, both runs completing. Both runs resolve the same
  identifier (the storage reference's, or the message's own), and both write at one
  path, under the matched recipient's sub-collection and keyed by that identifier:
  after the second run the store is the store before the first with the second run's
  record at that path, and it has the documents it had after the first run, not one
  more.
\<close>

theorem persist_email_details_idempotent:
  assumes "connection s = Some conn" and "transaction conn = Some txn"
    and "parseEmail_firestore rt1 txn = Inr email"
    and "parseEmail_firestore rt2 txn = Inr email"
    and "fst (persist_email_details_try cfg rt1 txn s) = None"
    and "fst (persist_email_details_try cfg rt2 txn (persist_email_details cfg rt1 s)) = None"
  shows "\<exists>d ds id.
           query_where
             (firestore_collections s (firestore_merchantsPaymentNotificationsCollection cfg))
             (or_empty (text_of (email_to email))) = d # ds
         \<and> resolve_messageId (notes_storageReference txn) email = Inr id
         \<and> (let path = document_path
                         (firestore_merchantsPaymentNotificationsCollection cfg) (doc_id d)
                         (firestore_merchantNotificationCollection cfg) id
            in firestore_documents (persist_email_details cfg rt1 s) =
                 (firestore_documents s)
                   (path \<mapsto> constructMessageDetails rt1 email id (notes_storageReference txn))
               \<and> firestore_documents
                   (persist_email_details cfg rt2 (persist_email_details cfg rt1 s)) =
                 (firestore_documents s)
                   (path \<mapsto> constructMessageDetails rt2 email id (notes_storageReference txn))
               \<and> dom (firestore_documents
                        (persist_email_details cfg rt2 (persist_email_details cfg rt1 s)))
                   = dom (firestore_documents (persist_email_details cfg rt1 s)))"
proof -
  let ?s1 = "persist_email_details cfg rt1 s"
  let ?ref = "notes_storageReference txn"
  let ?coll = "firestore_merchantsPaymentNotificationsCollection cfg"
  from assms(5) obtain email1 id d ds where steps1:
    "parseEmail_firestore rt1 txn = Inr email1"
    "resolve_messageId ?ref email1 = Inr id"
    "get_rejects rt1 = None"
    "query_where (firestore_collections s ?coll) (or_empty (text_of (email_to email1)))
       = d # ds"
    "set_rejects rt1 = None"
    by (rule persist_try_success)
  from steps1(1) assms(3) have e1: "email1 = email" by simp
  from assms(6) obtain email2 id' d' ds' where steps2:
    "parseEmail_firestore rt2 txn = Inr email2"
    "resolve_messageId ?ref email2 = Inr id'"
    "get_rejects rt2 = None"
    "query_where (firestore_collections ?s1 ?coll) (or_empty (text_of (email_to email2)))
       = d' # ds'"
    "set_rejects rt2 = None"
    by (rule persist_try_success)
  from steps2(1) assms(4) have e2: "email2 = email" by simp
  from steps1(2) steps2(2) e1 e2 have i: "id' = id" by simp
  from persist_email_details_effect [of cfg rt1 s] assms(1)
  have c1: "connection ?s1 = Some conn"
    and coll: "firestore_collections ?s1 = firestore_collections s"
    by simp_all
  from steps1(4) steps2(4) e1 e2 coll have d: "d' = d" by simp
  let ?path = "document_path ?coll (doc_id d) (firestore_merchantNotificationCollection cfg) id"
  from persist_try_run [OF steps1] assms(1,2) e1
  have w1: "firestore_documents ?s1 =
              (firestore_documents s)(?path \<mapsto> constructMessageDetails rt1 email id ?ref)"
    by (simp add: persist_email_details_def call_next_def loginfo_def)
  from persist_try_run [OF steps2] c1 assms(2) e2 d i
  have "firestore_documents (persist_email_details cfg rt2 ?s1) =
          (firestore_documents ?s1)(?path \<mapsto> constructMessageDetails rt2 email id ?ref)"
    by (simp add: persist_email_details_def call_next_def loginfo_def)
  with w1
  have w2: "firestore_documents (persist_email_details cfg rt2 ?s1) =
              (firestore_documents s)(?path \<mapsto> constructMessageDetails rt2 email id ?ref)"
    by simp
  have "query_where (firestore_collections s ?coll) (or_empty (text_of (email_to email)))
          = d # ds
      \<and> resolve_messageId ?ref email = Inr id
      \<and> firestore_documents ?s1 =
          (firestore_documents s)(?path \<mapsto> constructMessageDetails rt1 email id ?ref)
      \<and> firestore_documents (persist_email_details cfg rt2 ?s1) =
          (firestore_documents s)(?path \<mapsto> constructMessageDetails rt2 email id ?ref)
      \<and> dom (firestore_documents (persist_email_details cfg rt2 ?s1))
          = dom (firestore_documents ?s1)"
    using steps1(2,4) e1 by (simp add: w1 w2)
  then show ?thesis
    unfolding Let_def by blast
qed

text \<open>
  The message with the header \<open><abc@x>\<close>, delivered twice to the example state: one
  document, \<open>abc@x\<close> under recipient \<open>m1\<close>, holding the second run's record.
\<close>

theorem persist_email_details_idempotent_witness:
  "dom (firestore_documents
          (persist_email_details example_firestore_cfg second_delivery
             (persist_email_details example_firestore_cfg first_delivery example_state)))
     = {''merchants/m1/notifications/abc@x''}
   \<and> map_option md_receivedDate
       (firestore_documents
          (persist_email_details example_firestore_cfg second_delivery
             (persist_email_details example_firestore_cfg first_delivery example_state))
          ''merchants/m1/notifications/abc@x'')
     = Some ''1700000600003''"
proof -
  let ?email = "scenario_email\<lparr>email_messageId := Some ''<abc@x>''\<rparr>"
  let ?s1 = "persist_email_details example_firestore_cfg first_delivery example_state"
  have c: "connection example_state = Some \<lparr>transaction = Some example_transaction\<rparr>"
    and t: "transaction \<lparr>transaction = Some example_transaction\<rparr>
              = Some example_transaction"
    by (simp_all add: example_state_def)
  have p1: "parseEmail_firestore first_delivery example_transaction = Inr ?email"
    and p2: "parseEmail_firestore second_delivery example_transaction = Inr ?email"
    by (simp_all add: parseEmail_firestore_def first_delivery_def second_delivery_def
        example_runtime_def)
  have r: "notes_storageReference example_transaction = None"
    by (simp add: example_transaction_def)
  have id: "resolve_messageId None ?email = Inr ''abc@x''"
    by (simp add: resolve_messageId_def generateMessageId_firestore_def
        replace_angle_brackets_def)
  have id': "resolve_messageId (notes_storageReference example_transaction) ?email
               = Inr ''abc@x''"
    by (simp add: r id)
  have q: "query_where
             (firestore_collections example_state
                (firestore_merchantsPaymentNotificationsCollection example_firestore_cfg))
             (or_empty (text_of (email_to ?email)))
           = [\<lparr>doc_id = ''m1'', notifications_email = Some ''a@example.com''\<rparr>]"
    by (simp add: query_where_def example_defs or_empty_def text_of_def)
  have g: "get_rejects first_delivery = None" "set_rejects first_delivery = None"
    "get_rejects second_delivery = None" "set_rejects second_delivery = None"
    by (simp_all add: first_delivery_def second_delivery_def example_runtime_def)
  have ok1: "fst (persist_email_details_try example_firestore_cfg first_delivery
                    example_transaction example_state) = None"
    using persist_try_run [OF p1 id' g(1) q g(2)] by simp
  have "firestore_collections ?s1 = firestore_collections example_state"
    using persist_email_details_effect [of example_firestore_cfg first_delivery example_state]
    by simp
  with q have q': "query_where
             (firestore_collections ?s1
                (firestore_merchantsPaymentNotificationsCollection example_firestore_cfg))
             (or_empty (text_of (email_to ?email)))
           = [\<lparr>doc_id = ''m1'', notifications_email = Some ''a@example.com''\<rparr>]"
    by simp
  have ok2: "fst (persist_email_details_try example_firestore_cfg second_delivery
                    example_transaction ?s1) = None"
    using persist_try_run [OF p2 id' g(3) q' g(4)] by simp
  have q0: "query_where (firestore_collections example_state ''merchants'')
              (or_empty (text_of (email_to scenario_email)))
            = [\<lparr>doc_id = ''m1'', notifications_email = Some ''a@example.com''\<rparr>]"
    by (simp add: query_where_def example_defs or_empty_def text_of_def)
  from persist_email_details_idempotent [OF c t p1 p2 ok1 ok2]
  have "firestore_documents (persist_email_details example_firestore_cfg second_delivery ?s1) =
       (firestore_documents example_state)
         (document_path ''merchants'' ''m1'' ''notifications'' ''abc@x''
          \<mapsto> constructMessageDetails second_delivery ?email ''abc@x'' None)"
    by (auto simp: Let_def r id q0 example_firestore_cfg_def)
  then show ?thesis
    by (simp add: example_state_def constructMessageDetails_def second_delivery_def
        first_delivery_def example_runtime_def number_toString_def digit_char_def
        document_path_def)
qed

end
